theory Spec2Isabelle
  imports Main
begin

section \<open>The relational store\<close>

text \<open>
  The backend keeps all durable state in a MySQL database reached through the Prisma
  client. Each table is a list of rows, each row a record of the columns the handlers
  read or write. Identifiers are the UUID strings of the schema, timestamps are
  milliseconds since the epoch. The text of a chat message is a JavaScript string, kept
  as its sequence of UTF-16 code units.
\<close>

type_synonym ident = string
type_synonym time = int
type_synonym utf16 = "nat list"

record user =
  u_id :: ident
  u_email :: string
  u_password :: string
  u_nickname :: string
  u_avatar :: "string option"
  u_role :: string
  u_isActive :: bool
  u_lastLogin :: "time option"

record friend =
  f_id :: ident
  f_userId :: ident
  f_friendId :: ident
  f_status :: string

record workspace =
  ws_id :: ident
  ws_name :: string
  ws_ownerId :: ident

record workspaceMember =
  wm_id :: ident
  wm_workspaceId :: ident
  wm_userId :: ident
  wm_accepted :: bool

record personalTodo =
  pt_id :: ident
  pt_userId :: ident
  pt_title :: string
  pt_description :: "string option"
  pt_status :: string
  pt_priority :: string
  pt_startDate :: "time option"
  pt_dueDate :: "time option"
  pt_createdAt :: time
  pt_updatedAt :: time

record groupTask =
  gt_id :: ident
  gt_workspaceId :: ident
  gt_title :: string
  gt_description :: "string option"
  gt_department :: string
  gt_status :: string
  gt_startDate :: time
  gt_dueDate :: time
  gt_createdAt :: time
  gt_updatedAt :: time

record chatMessage =
  cm_id :: ident
  cm_workspaceId :: ident
  cm_userId :: ident
  cm_content :: utf16
  cm_createdAt :: time

record chatNotification =
  cn_userId :: ident
  cn_workspaceId :: ident
  cn_unreadCount :: int
  cn_lastReadAt :: time

record refreshToken =
  rt_token :: string
  rt_userId :: ident
  rt_expiresAt :: time

record store =
  users :: "user list"
  friends :: "friend list"
  personalTodos :: "personalTodo list"
  workspaces :: "workspace list"
  workspaceMembers :: "workspaceMember list"
  groupTasks :: "groupTask list"
  chatMessages :: "chatMessage list"
  chatNotifications :: "chatNotification list"
  refreshTokens :: "refreshToken list"

text \<open>
  A Prisma call is a promise that may reject (connection lost, constraint violated), and
  the handlers wrap their bodies in \<open>try/catch\<close>. A handler therefore runs against the
  tables and a schedule of rejections: one flag per statement still to be issued,
  \<open>True\<close> meaning that the statement throws. The empty schedule is a database that
  answers every statement. \<open>await r fs\<close> issues one statement whose outcome on the
  current tables is \<open>r\<close> (\<open>None\<close> when a constraint of the schema refuses it) and
  returns what the handler sees, \<open>None\<close> for a thrown exception, with the rest of the
  schedule.
\<close>

type_synonym faults = "bool list"

definition await :: "'a option \<Rightarrow> faults \<Rightarrow> 'a option \<times> faults" where
  "await r fs = (case fs of [] \<Rightarrow> (r, []) | thrown # rest \<Rightarrow> (if thrown then None else r, rest))"

text \<open>JavaScript truthiness of an optional string: \<open>undefined\<close>, \<open>null\<close> and \<open>""\<close> are falsy.\<close>

definition truthy :: "'a list option \<Rightarrow> bool" where
  "truthy v = (case v of None \<Rightarrow> False | Some x \<Rightarrow> x \<noteq> [])"

section \<open>The socket server (src/socket.js)\<close>

subsection \<open>Connection middleware\<close>

text \<open>
  \<open>io.use\<close> installs a middleware that reads \<open>socket.handshake.auth.token\<close>, refuses a
  falsy token, verifies the token with \<open>jwt.verify\<close> under \<open>process.env.JWT_SECRET ||
  "secret_key"\<close>, and on success stores the decoded payload in \<open>socket.user\<close>. The library
  function \<open>jwt.verify\<close> is a parameter: it maps a token and a secret to the decoded
  payload, or to \<open>None\<close> when verification fails.
\<close>

record jwt_payload =
  p_userId :: ident
  p_email :: string

record handshake =
  hs_socketId :: string
  hs_token :: "string option"

record socket =
  sock_id :: string
  sock_user :: jwt_payload
  sock_rooms :: "string list"

datatype auth_error = TokenNotProvided | TokenInvalid

definition jwt_secret :: "string option \<Rightarrow> string" where
  "jwt_secret env_JWT_SECRET = (if truthy env_JWT_SECRET then the env_JWT_SECRET else ''secret_key'')"

definition io_use_auth ::
  "(string \<Rightarrow> string \<Rightarrow> jwt_payload option) \<Rightarrow> string option \<Rightarrow> handshake \<Rightarrow> auth_error + socket" where
  "io_use_auth jwt_verify env_JWT_SECRET hs =
     (if \<not> truthy (hs_token hs) then Inl TokenNotProvided
      else (case jwt_verify (the (hs_token hs)) (jwt_secret env_JWT_SECRET) of
              None \<Rightarrow> Inl TokenInvalid
            | Some decoded \<Rightarrow>
                Inr \<lparr>sock_id = hs_socketId hs, sock_user = decoded, sock_rooms = [hs_socketId hs]\<rparr>))"

text \<open>
  Socket.IO runs the \<open>connection\<close> listener, which registers every event handler, only
  for a connection that the middleware passed on with \<open>next()\<close>; \<open>next(err)\<close> refuses
  the connection and the listener never sees it.
\<close>

definition io_connection ::
  "(string \<Rightarrow> string \<Rightarrow> jwt_payload option) \<Rightarrow> string option \<Rightarrow> (socket \<Rightarrow> 'h) \<Rightarrow> handshake
     \<Rightarrow> auth_error + 'h" where
  "io_connection jwt_verify env_JWT_SECRET on_connection hs =
     (case io_use_auth jwt_verify env_JWT_SECRET hs of
        Inl err \<Rightarrow> Inl err
      | Inr sock \<Rightarrow> Inr (on_connection sock))"

subsection \<open>Event payloads\<close>

text \<open>
  The payload of a socket event is whatever JSON the client sent. \<open>join_workspace\<close>
  and \<open>task_update\<close> test an identifier of the payload for truthiness only, then hand
  it to Prisma inside a \<open>where\<close> clause and build a room name from it with a template
  literal. For such an identifier the payload therefore distinguishes
  a string;
  an object that Prisma reads as a filter on a string column, given by the strings the
  filter accepts (\<open>{ not: "x" }\<close> accepts every string but \<open>x\<close>);
  any other value (\<open>undefined\<close>, \<open>null\<close>, a boolean, a number, an array, an object
  that is no filter), given by its truthiness and its string conversion.
\<close>

datatype payload_value =
    Text string
  | FilterObject "string \<Rightarrow> bool"
  | OtherValue bool string

definition truthy_value :: "payload_value \<Rightarrow> bool" where
  "truthy_value v = (case v of Text t \<Rightarrow> t \<noteq> [] | FilterObject accepts \<Rightarrow> True | OtherValue b r \<Rightarrow> b)"

text \<open>The string a template literal \<open>`${v}`\<close> yields.\<close>

definition to_string :: "payload_value \<Rightarrow> string" where
  "to_string v = (case v of Text t \<Rightarrow> t | FilterObject accepts \<Rightarrow> ''[object Object]'' | OtherValue b r \<Rightarrow> r)"

text \<open>
  The condition \<open>{ column: v }\<close> of a \<open>where\<close> clause on a string column: equality for
  a string, the filter for a filter object; Prisma rejects the query for any other
  truthy value (the handlers issue no query with a falsy identifier).
\<close>

definition where_string :: "payload_value \<Rightarrow> (string \<Rightarrow> bool) option" where
  "where_string v =
     (case v of Text t \<Rightarrow> Some (\<lambda>x. x = t) | FilterObject accepts \<Rightarrow> Some accepts | OtherValue b r \<Rightarrow> None)"

subsection \<open>Events and emissions\<close>

text \<open>
  What a handler sends: \<open>socket.emit\<close> reaches the sender only, \<open>io.to(room).emit\<close>
  every socket of the room, \<open>socket.to(room).emit\<close> every socket of the room but the sender.
\<close>

datatype target = ToSender | ToRoom string | ToRoomExceptSender string

datatype error_message =
    NoWorkspaceAccess
  | WorkspaceJoinFailed
  | WorkspaceAndTaskIdRequired
  | TaskNotFound
  | TaskUpdateFailed
  | TargetUserIdRequired
  | FriendRequestFailed

datatype task_data = ClientTaskData string | CanonicalTask groupTask

datatype event =
    Error error_message
  | JoinedWorkspace payload_value
  | UserJoined ident string
  | TaskUpdated payload_value string ident task_data time
  | FriendRequestReceived ident string string time

type_synonym emission = "target \<times> event"

definition workspace_room :: "string \<Rightarrow> string" where
  "workspace_room wsId = ''workspace_'' @ wsId"

definition user_room :: "ident \<Rightarrow> string" where
  "user_room userId = ''user_'' @ userId"

subsection \<open>checkWorkspaceMembership\<close>

text \<open>
  The function is called with the identifier as the payload carried it. It catches every
  exception of its two queries and answers \<open>false\<close>.
\<close>

definition checkWorkspaceMembership :: "ident \<Rightarrow> payload_value \<Rightarrow> store \<Rightarrow> faults \<Rightarrow> bool \<times> faults" where
  "checkWorkspaceMembership userId wsId s fs =
     (case await (map_option (\<lambda>is_wsId. find (\<lambda>w. is_wsId (ws_id w) \<and> ws_ownerId w = userId) (workspaces s))
                             (where_string wsId)) fs of
        (None, fs1) \<Rightarrow> (False, fs1)
      | (Some (Some workspace), fs1) \<Rightarrow> (True, fs1)
      | (Some None, fs1) \<Rightarrow>
          (case await (map_option (\<lambda>is_wsId. find (\<lambda>m. is_wsId (wm_workspaceId m) \<and> wm_userId m = userId \<and>
                                                         wm_accepted m) (workspaceMembers s))
                                  (where_string wsId)) fs1 of
             (None, fs2) \<Rightarrow> (False, fs2)
           | (Some member, fs2) \<Rightarrow> (member \<noteq> None, fs2)))"

subsection \<open>join_workspace\<close>

definition join_workspace ::
  "socket \<Rightarrow> payload_value \<Rightarrow> store \<Rightarrow> faults \<Rightarrow> (emission list \<times> socket) \<times> faults" where
  "join_workspace sock wsId s fs =
     (if \<not> truthy_value wsId then (([], sock), fs)
      else (case checkWorkspaceMembership (p_userId (sock_user sock)) wsId s fs of
              (isMember, fs1) \<Rightarrow>
                if \<not> isMember then (([(ToSender, Error NoWorkspaceAccess)], sock), fs1)
                else (([(ToSender, JoinedWorkspace wsId),
                        (ToRoomExceptSender (workspace_room (to_string wsId)),
                         UserJoined (p_userId (sock_user sock)) (p_email (sock_user sock)))],
                       sock\<lparr>sock_rooms := List.insert (workspace_room (to_string wsId)) (sock_rooms sock)\<rparr>),
                      fs1)))"

subsection \<open>task_update\<close>

text \<open>
  A payload that cannot be destructured (\<open>undefined\<close>) throws inside the \<open>try\<close>, as a
  rejected query does; the \<open>catch\<close> reports the failure to the sender. \<open>action\<close> and
  \<open>taskData\<close> are only passed on: an optional string each.
\<close>

record task_update_data =
  tu_wsId :: payload_value
  tu_taskId :: payload_value
  tu_action :: "string option"
  tu_taskData :: "string option"

definition task_update ::
  "socket \<Rightarrow> task_update_data option \<Rightarrow> time \<Rightarrow> store \<Rightarrow> faults \<Rightarrow> emission list \<times> faults" where
  "task_update sock data now s fs =
     (case data of
        None \<Rightarrow> ([(ToSender, Error TaskUpdateFailed)], fs)
      | Some d \<Rightarrow>
          let userId = p_userId (sock_user sock) in
          if \<not> truthy_value (tu_wsId d) \<or> \<not> truthy_value (tu_taskId d)
          then ([(ToSender, Error WorkspaceAndTaskIdRequired)], fs)
          else (case checkWorkspaceMembership userId (tu_wsId d) s fs of
                  (isMember, fs1) \<Rightarrow>
                    if \<not> isMember then ([(ToSender, Error NoWorkspaceAccess)], fs1)
                    else (case await (case (where_string (tu_taskId d), where_string (tu_wsId d)) of
                                        (Some is_taskId, Some is_wsId) \<Rightarrow>
                                          Some (find (\<lambda>t. is_taskId (gt_id t) \<and> is_wsId (gt_workspaceId t))
                                                     (groupTasks s))
                                      | _ \<Rightarrow> None) fs1 of
                            (None, fs2) \<Rightarrow> ([(ToSender, Error TaskUpdateFailed)], fs2)
                          | (Some None, fs2) \<Rightarrow> ([(ToSender, Error TaskNotFound)], fs2)
                          | (Some (Some task), fs2) \<Rightarrow>
                              ([(ToRoom (workspace_room (to_string (tu_wsId d))),
                                 TaskUpdated (tu_taskId d)
                                   (if truthy (tu_action d) then the (tu_action d) else ''updated'')
                                   userId
                                   (if truthy (tu_taskData d) then ClientTaskData (the (tu_taskData d))
                                    else CanonicalTask task)
                                   now)],
                               fs2))))"

subsection \<open>friend_request\<close>

text \<open>The fields of this payload reach no query; each is an optional string.\<close>

record friend_request_data =
  fr_targetUserId :: "string option"
  fr_action :: "string option"

definition friend_request ::
  "socket \<Rightarrow> friend_request_data option \<Rightarrow> time \<Rightarrow> store \<Rightarrow> faults \<Rightarrow> emission list \<times> faults" where
  "friend_request sock data now s fs =
     (case data of
        None \<Rightarrow> ([(ToSender, Error FriendRequestFailed)], fs)
      | Some d \<Rightarrow>
          if \<not> truthy (fr_targetUserId d) then ([(ToSender, Error TargetUserIdRequired)], fs)
          else ([(ToRoom (user_room (the (fr_targetUserId d))),
                  FriendRequestReceived (p_userId (sock_user sock)) (p_email (sock_user sock))
                    (if truthy (fr_action d) then the (fr_action d) else ''sent'')
                    now)],
                fs))"

section \<open>HTTP responses\<close>

text \<open>
  A response is the status code with the data its JSON body carries. The error texts of
  the handlers are the constructors of \<open>rest_error\<close>.
\<close>

datatype rest_error =
    ContentRequired
  | WorkspaceForbidden
  | MessageNotFound
  | DeleteForbidden
  | HistoryFailed
  | SendFailed
  | DeleteFailed
  | MarkReadFailed
  | EmailPasswordRequired
  | InvalidCredentials
  | TokenGenerationFailed
  | LoginFailed

record pagination =
  pg_currentPage :: nat
  pg_totalPages :: "nat option"
  pg_totalCount :: nat
  pg_hasNext :: bool
  pg_hasPrev :: bool

datatype body =
    ErrorBody rest_error
  | ChatHistory "chatMessage list" pagination
  | CreatedMessage chatMessage
  | MessageDeleted
  | MarkedRead
  | LoginOk user string "string option"

type_synonym response = "nat \<times> body"

section \<open>The chat routes (routes/chat.js)\<close>

text \<open>
  Every route runs behind the authentication middleware, which is not part of the
  module: a handler is entered with \<open>req.user.id\<close> already set, the argument \<open>userId\<close>
  below. The \<open>include\<close>d display fields of the author (nickname, avatar) are left out
  of the response bodies.
\<close>

subsection \<open>GET /chat/workspace/:workspaceId\<close>

text \<open>
  \<open>page\<close> and \<open>limit\<close> are the query parameters read as natural numbers (1 and 50 when
  absent). The page query, \<open>prisma.chatMessage.findMany\<close> with \<open>orderBy: { createdAt:
  "desc" }\<close>, \<open>take\<close> and \<open>skip\<close>, is a parameter of the handler: the order the
  engine gives to messages of equal \<open>createdAt\<close> and the values of \<open>take\<close> and \<open>skip\<close>
  it refuses are not fixed by the sources. \<open>findMany_page\<close> maps the messages of the
  workspace, \<open>take\<close> and \<open>skip\<close> to the page, or to \<open>None\<close> when the query is refused.
  \<open>Math.ceil(totalCount / limit)\<close> is not a number for \<open>limit = 0\<close> and is serialised
  as \<open>null\<close>.
\<close>

definition count_messages :: "ident \<Rightarrow> store \<Rightarrow> nat" where
  "count_messages workspaceId s = length (filter (\<lambda>m. cm_workspaceId m = workspaceId) (chatMessages s))"

definition get_chat_workspace ::
  "(chatMessage list \<Rightarrow> nat \<Rightarrow> int \<Rightarrow> chatMessage list option) \<Rightarrow> ident \<Rightarrow> ident \<Rightarrow> nat option \<Rightarrow> nat option
     \<Rightarrow> store \<Rightarrow> faults \<Rightarrow> response \<times> faults" where
  "get_chat_workspace findMany_page userId workspaceId page_q limit_q s fs =
     (let page = (case page_q of None \<Rightarrow> 1 | Some p \<Rightarrow> p);
          limit = (case limit_q of None \<Rightarrow> 50 | Some l \<Rightarrow> l);
          offset = (int page - 1) * int limit
      in case await (Some (find (\<lambda>m. wm_workspaceId m = workspaceId \<and> wm_userId m = userId \<and> wm_accepted m)
                                (workspaceMembers s))) fs of
           (None, fs1) \<Rightarrow> ((500, ErrorBody HistoryFailed), fs1)
         | (Some None, fs1) \<Rightarrow> ((403, ErrorBody WorkspaceForbidden), fs1)
         | (Some (Some member), fs1) \<Rightarrow>
             (case await (findMany_page (filter (\<lambda>m. cm_workspaceId m = workspaceId) (chatMessages s))
                                        limit offset) fs1 of
                (None, fs2) \<Rightarrow> ((500, ErrorBody HistoryFailed), fs2)
              | (Some messages, fs2) \<Rightarrow>
                  (case await (Some (count_messages workspaceId s)) fs2 of
                     (None, fs3) \<Rightarrow> ((500, ErrorBody HistoryFailed), fs3)
                   | (Some totalCount, fs3) \<Rightarrow>
                       ((200, ChatHistory (rev messages)
                          \<lparr>pg_currentPage = page,
                           pg_totalPages = (if limit = 0 then None
                                            else Some ((totalCount + limit - 1) div limit)),
                           pg_totalCount = totalCount,
                           pg_hasNext = (offset + int (length messages) < int totalCount),
                           pg_hasPrev = (page > 1)\<rparr>),
                        fs3))))"

subsection \<open>POST /chat/workspace/:workspaceId\<close>

text \<open>
  \<open>content\<close> is the field of the JSON body: a string, or any other value (absent,
  \<open>null\<close>, a number, a boolean, an array, an object), given by its truthiness. A truthy
  value that is no string has no \<open>trim\<close> method: the call throws inside the \<open>try\<close>.
\<close>

datatype content_value = ContentString utf16 | ContentOther bool

text \<open>
  \<open>String.prototype.trim\<close> removes the white space and line terminator code units of
  ECMAScript from both ends: TAB, LF, VT, FF, CR, SP, NBSP, U+1680, U+2000 to U+200A, LS,
  PS, U+202F, U+205F, U+3000 and U+FEFF.
\<close>

definition is_space :: "nat \<Rightarrow> bool" where
  "is_space c =
     (c \<in> set [0x09, 0x0A, 0x0B, 0x0C, 0x0D, 0x20, 0xA0, 0x1680, 0x2028, 0x2029, 0x202F, 0x205F, 0x3000, 0xFEFF] \<or>
      (0x2000 \<le> c \<and> c \<le> 0x200A))"

definition trim :: "utf16 \<Rightarrow> utf16" where
  "trim x = rev (dropWhile is_space (rev (dropWhile is_space x)))"

text \<open>
  \<open>chat_messages\<close> has the primary key \<open>id\<close> and foreign keys to \<open>workspaces\<close> and
  \<open>users\<close>; an insert that violates one of them is refused.
\<close>

definition chatMessage_create :: "chatMessage \<Rightarrow> store \<Rightarrow> (chatMessage \<times> store) option" where
  "chatMessage_create m s =
     (if cm_id m \<in> set (map cm_id (chatMessages s)) \<or>
         cm_workspaceId m \<notin> set (map ws_id (workspaces s)) \<or>
         cm_userId m \<notin> set (map u_id (users s))
      then None
      else Some (m, s\<lparr>chatMessages := chatMessages s @ [m]\<rparr>))"

text \<open>
  \<open>chatNotification.upsert\<close> on the compound key \<open>(userId, workspaceId)\<close>: an existing row
  gets \<open>unreadCount\<close> incremented by one, otherwise a row with \<open>unreadCount = 1\<close> is
  created. The created row leaves \<open>lastReadAt\<close> to the column default of the Prisma
  schema, which is not part of the sources: the parameter \<open>lastReadAt_default\<close>.
\<close>

definition has_notification :: "ident \<Rightarrow> ident \<Rightarrow> store \<Rightarrow> bool" where
  "has_notification userId workspaceId s =
     (find (\<lambda>n. cn_userId n = userId \<and> cn_workspaceId n = workspaceId) (chatNotifications s) \<noteq> None)"

definition upsert_increment :: "ident \<Rightarrow> ident \<Rightarrow> time \<Rightarrow> store \<Rightarrow> store" where
  "upsert_increment userId workspaceId lastReadAt_default s =
     (if has_notification userId workspaceId s
      then s\<lparr>chatNotifications :=
               map (\<lambda>n. if cn_userId n = userId \<and> cn_workspaceId n = workspaceId
                         then n\<lparr>cn_unreadCount := cn_unreadCount n + 1\<rparr> else n)
                   (chatNotifications s)\<rparr>
      else s\<lparr>chatNotifications := chatNotifications s @
               [\<lparr>cn_userId = userId, cn_workspaceId = workspaceId, cn_unreadCount = 1,
                 cn_lastReadAt = lastReadAt_default\<rparr>]\<rparr>)"

text \<open>
  The loop over \<open>allMembers\<close>: one upsert per entry; a rejected upsert leaves the loop
  through the handler's \<open>catch\<close>, with the earlier upserts already done.
\<close>

fun increment_unread_loop :: "ident list \<Rightarrow> ident \<Rightarrow> time \<Rightarrow> store \<Rightarrow> faults \<Rightarrow> bool \<times> store \<times> faults" where
  "increment_unread_loop [] workspaceId dflt s fs = (True, s, fs)"
| "increment_unread_loop (u # us) workspaceId dflt s fs =
     (case await (Some (upsert_increment u workspaceId dflt s)) fs of
        (None, fs1) \<Rightarrow> (False, s, fs1)
      | (Some s1, fs1) \<Rightarrow> increment_unread_loop us workspaceId dflt s1 fs1)"

definition post_chat_workspace ::
  "ident \<Rightarrow> ident \<Rightarrow> content_value \<Rightarrow> ident \<Rightarrow> time \<Rightarrow> time \<Rightarrow> store \<Rightarrow> faults
     \<Rightarrow> response \<times> store \<times> faults" where
  "post_chat_workspace userId workspaceId content newId now lastReadAt_default s fs =
     (case content of
        ContentOther b \<Rightarrow>
          if \<not> b then ((400, ErrorBody ContentRequired), s, fs) else ((500, ErrorBody SendFailed), s, fs)
      | ContentString str \<Rightarrow>
          if str = [] \<or> length (trim str) = 0 then ((400, ErrorBody ContentRequired), s, fs)
          else
           (case await (Some (find (\<lambda>m. wm_workspaceId m = workspaceId \<and> wm_userId m = userId \<and> wm_accepted m)
                                   (workspaceMembers s))) fs of
              (None, fs1) \<Rightarrow> ((500, ErrorBody SendFailed), s, fs1)
            | (Some None, fs1) \<Rightarrow> ((403, ErrorBody WorkspaceForbidden), s, fs1)
            | (Some (Some member), fs1) \<Rightarrow>
            (case await (chatMessage_create
                           \<lparr>cm_id = newId, cm_workspaceId = workspaceId, cm_userId = userId,
                            cm_content = trim str, cm_createdAt = now\<rparr> s) fs1 of
               (None, fs2) \<Rightarrow> ((500, ErrorBody SendFailed), s, fs2)
             | (Some (message, s2), fs2) \<Rightarrow>
                 (case await (Some (filter (\<lambda>m. wm_workspaceId m = workspaceId \<and> wm_accepted m \<and>
                                                 wm_userId m \<noteq> userId) (workspaceMembers s2))) fs2 of
                    (None, fs3) \<Rightarrow> ((500, ErrorBody SendFailed), s2, fs3)
                  | (Some workspaceMembers', fs3) \<Rightarrow>
                      (case await (Some (find (\<lambda>w. ws_id w = workspaceId) (workspaces s2))) fs3 of
                         (None, fs4) \<Rightarrow> ((500, ErrorBody SendFailed), s2, fs4)
                       | (Some None, fs4) \<Rightarrow> ((500, ErrorBody SendFailed), s2, fs4)
                       | (Some (Some workspace), fs4) \<Rightarrow>
                           (let allMembers = map wm_userId workspaceMembers' @
                                  (if ws_ownerId workspace \<noteq> userId then [ws_ownerId workspace] else [])
                            in case increment_unread_loop allMembers workspaceId lastReadAt_default s2 fs4 of
                                 (False, s5, fs5) \<Rightarrow> ((500, ErrorBody SendFailed), s5, fs5)
                               | (True, s5, fs5) \<Rightarrow> ((201, CreatedMessage message), s5, fs5)))))))"

subsection \<open>DELETE /chat/message/:messageId\<close>

definition chatMessage_delete :: "ident \<Rightarrow> store \<Rightarrow> store option" where
  "chatMessage_delete messageId s =
     (if messageId \<in> set (map cm_id (chatMessages s))
      then Some (s\<lparr>chatMessages := filter (\<lambda>m. cm_id m \<noteq> messageId) (chatMessages s)\<rparr>)
      else None)"

definition count_unread :: "ident \<Rightarrow> time \<Rightarrow> store \<Rightarrow> int" where
  "count_unread workspaceId lastReadAt s =
     int (length (filter (\<lambda>m. cm_workspaceId m = workspaceId \<and> cm_createdAt m > lastReadAt) (chatMessages s)))"

definition update_unreadCount :: "ident \<Rightarrow> ident \<Rightarrow> int \<Rightarrow> store \<Rightarrow> store" where
  "update_unreadCount userId workspaceId unreadCount s =
     s\<lparr>chatNotifications :=
         map (\<lambda>n. if cn_userId n = userId \<and> cn_workspaceId n = workspaceId
                   then n\<lparr>cn_unreadCount := unreadCount\<rparr> else n)
             (chatNotifications s)\<rparr>"

text \<open>
  The recalculation loop: per entry of \<open>allMembers\<close> a \<open>findUnique\<close> of the notification
  row and, when there is one, a \<open>count\<close> of the workspace's messages created after its
  \<open>lastReadAt\<close> and an \<open>update\<close> of the row.
\<close>

fun recalculate_unread_loop :: "ident list \<Rightarrow> ident \<Rightarrow> store \<Rightarrow> faults \<Rightarrow> bool \<times> store \<times> faults" where
  "recalculate_unread_loop [] workspaceId s fs = (True, s, fs)"
| "recalculate_unread_loop (u # us) workspaceId s fs =
     (case await (Some (find (\<lambda>n. cn_userId n = u \<and> cn_workspaceId n = workspaceId) (chatNotifications s))) fs of
        (None, fs1) \<Rightarrow> (False, s, fs1)
      | (Some None, fs1) \<Rightarrow> recalculate_unread_loop us workspaceId s fs1
      | (Some (Some notification), fs1) \<Rightarrow>
          (case await (Some (count_unread workspaceId (cn_lastReadAt notification) s)) fs1 of
             (None, fs2) \<Rightarrow> (False, s, fs2)
           | (Some unreadCount, fs2) \<Rightarrow>
               (case await (Some (update_unreadCount u workspaceId unreadCount s)) fs2 of
                  (None, fs3) \<Rightarrow> (False, s, fs3)
                | (Some s3, fs3) \<Rightarrow> recalculate_unread_loop us workspaceId s3 fs3)))"

definition delete_chat_message :: "ident \<Rightarrow> ident \<Rightarrow> store \<Rightarrow> faults \<Rightarrow> response \<times> store \<times> faults" where
  "delete_chat_message userId messageId s fs =
     (case await (Some (find (\<lambda>m. cm_id m = messageId) (chatMessages s))) fs of
        (None, fs1) \<Rightarrow> ((500, ErrorBody DeleteFailed), s, fs1)
      | (Some None, fs1) \<Rightarrow> ((404, ErrorBody MessageNotFound), s, fs1)
      | (Some (Some message), fs1) \<Rightarrow>
          (case find (\<lambda>w. ws_id w = cm_workspaceId message) (workspaces s) of
             None \<Rightarrow> ((500, ErrorBody DeleteFailed), s, fs1)
           | Some workspace \<Rightarrow>
               let members = filter (\<lambda>m. wm_workspaceId m = ws_id workspace \<and> wm_userId m = userId \<and>
                                          wm_accepted m) (workspaceMembers s);
                   isOwner = (ws_ownerId workspace = userId);
                   isAuthor = (cm_userId message = userId);
                   isMember = (length members > 0)
               in if \<not> isOwner \<and> \<not> isAuthor \<and> \<not> isMember then ((403, ErrorBody DeleteForbidden), s, fs1)
                  else
                    (case await (map_option (Pair ()) (chatMessage_delete messageId s)) fs1 of
                       (None, fs2) \<Rightarrow> ((500, ErrorBody DeleteFailed), s, fs2)
                     | (Some (u, s2), fs2) \<Rightarrow>
                         (case await (Some (filter (\<lambda>m. wm_workspaceId m = cm_workspaceId message \<and>
                                                         wm_accepted m) (workspaceMembers s2))) fs2 of
                            (None, fs3) \<Rightarrow> ((500, ErrorBody DeleteFailed), s2, fs3)
                          | (Some workspaceMembers', fs3) \<Rightarrow>
                              (let allMembers = map wm_userId workspaceMembers' @ [ws_ownerId workspace]
                               in case recalculate_unread_loop allMembers (cm_workspaceId message) s2 fs3 of
                                    (False, s4, fs4) \<Rightarrow> ((500, ErrorBody DeleteFailed), s4, fs4)
                                  | (True, s4, fs4) \<Rightarrow> ((200, MessageDeleted), s4, fs4))))))"

subsection \<open>POST /chat/workspace/:workspaceId/read\<close>

definition upsert_read :: "ident \<Rightarrow> ident \<Rightarrow> time \<Rightarrow> store \<Rightarrow> store" where
  "upsert_read userId workspaceId now s =
     (if has_notification userId workspaceId s
      then s\<lparr>chatNotifications :=
               map (\<lambda>n. if cn_userId n = userId \<and> cn_workspaceId n = workspaceId
                         then n\<lparr>cn_unreadCount := 0, cn_lastReadAt := now\<rparr> else n)
                   (chatNotifications s)\<rparr>
      else s\<lparr>chatNotifications := chatNotifications s @
               [\<lparr>cn_userId = userId, cn_workspaceId = workspaceId, cn_unreadCount = 0,
                 cn_lastReadAt = now\<rparr>]\<rparr>)"

definition post_chat_workspace_read ::
  "ident \<Rightarrow> ident \<Rightarrow> time \<Rightarrow> store \<Rightarrow> faults \<Rightarrow> response \<times> store \<times> faults" where
  "post_chat_workspace_read userId workspaceId now s fs =
     (case await (Some (find (\<lambda>m. wm_workspaceId m = workspaceId \<and> wm_userId m = userId \<and> wm_accepted m)
                             (workspaceMembers s))) fs of
        (None, fs1) \<Rightarrow> ((500, ErrorBody MarkReadFailed), s, fs1)
      | (Some member, fs1) \<Rightarrow>
          (case await (Some (find (\<lambda>w. ws_id w = workspaceId \<and> ws_ownerId w = userId) (workspaces s))) fs1 of
             (None, fs2) \<Rightarrow> ((500, ErrorBody MarkReadFailed), s, fs2)
           | (Some isOwner, fs2) \<Rightarrow>
               if member = None \<and> isOwner = None then ((403, ErrorBody WorkspaceForbidden), s, fs2)
               else (case await (Some (upsert_read userId workspaceId now s)) fs2 of
                       (None, fs3) \<Rightarrow> ((500, ErrorBody MarkReadFailed), s, fs3)
                     | (Some s3, fs3) \<Rightarrow> ((200, MarkedRead), s3, fs3))))"

section \<open>The increment as the specification describes it\<close>

text \<open>
  The specification calls the increment of the unread counters a look-up-then-write:
  the counter is read, then the incremented value is written. The loop below is written
  from those words, two statements per recipient (a \<open>findUnique\<close> of the row, then an
  \<open>update\<close> to the value read plus one, or a \<open>create\<close> with 1 when there is no row), to
  be compared with \<open>increment_unread_loop\<close>, which is written from the handler.
\<close>

fun lookup_then_write_loop :: "ident list \<Rightarrow> ident \<Rightarrow> time \<Rightarrow> store \<Rightarrow> faults \<Rightarrow> bool \<times> store \<times> faults" where
  "lookup_then_write_loop [] workspaceId dflt s fs = (True, s, fs)"
| "lookup_then_write_loop (u # us) workspaceId dflt s fs =
     (case await (Some (find (\<lambda>n. cn_userId n = u \<and> cn_workspaceId n = workspaceId) (chatNotifications s))) fs of
        (None, fs1) \<Rightarrow> (False, s, fs1)
      | (Some None, fs1) \<Rightarrow>
          (case await (Some (s\<lparr>chatNotifications := chatNotifications s @
                                 [\<lparr>cn_userId = u, cn_workspaceId = workspaceId, cn_unreadCount = 1,
                                   cn_lastReadAt = dflt\<rparr>]\<rparr>)) fs1 of
             (None, fs2) \<Rightarrow> (False, s, fs2)
           | (Some s2, fs2) \<Rightarrow> lookup_then_write_loop us workspaceId dflt s2 fs2)
      | (Some (Some notification), fs1) \<Rightarrow>
          (case await (Some (update_unreadCount u workspaceId (cn_unreadCount notification + 1) s)) fs1 of
             (None, fs2) \<Rightarrow> (False, s, fs2)
           | (Some s2, fs2) \<Rightarrow> lookup_then_write_loop us workspaceId dflt s2 fs2))"

section \<open>Login (routes/auth.js)\<close>

text \<open>
  \<open>POST /auth/login\<close>. The password check \<open>bcrypt.compare\<close> and the token factory
  \<open>generateTokens\<close> of the authentication middleware are parameters, as are the two
  secrets the handler reads from the environment. \<open>generateTokens\<close> yields the access
  token and the refresh token, or \<open>None\<close> when it throws. The user row is read with
  \<open>isActive\<close> selected, so \<open>user.hasOwnProperty("isActive")\<close> holds and the handler's test
  is \<open>!user.isActive\<close>. The update of \<open>lastLogin\<close> sits in a \<open>try\<close> of its own, whose
  \<open>catch\<close> only logs.
\<close>

record login_env =
  bcrypt_compare :: "string \<Rightarrow> string \<Rightarrow> bool"
  generateTokens :: "ident \<Rightarrow> string \<Rightarrow> string \<Rightarrow> (string \<times> string option) option"
  JWT_SECRET :: "string option"
  REFRESH_TOKEN_SECRET :: "string option"

definition user_update_lastLogin :: "ident \<Rightarrow> time \<Rightarrow> store \<Rightarrow> store option" where
  "user_update_lastLogin userId now s =
     (if userId \<in> set (map u_id (users s))
      then Some (s\<lparr>users := map (\<lambda>u. if u_id u = userId then u\<lparr>u_lastLogin := Some now\<rparr> else u) (users s)\<rparr>)
      else None)"

definition refreshToken_deleteMany :: "ident \<Rightarrow> store \<Rightarrow> store" where
  "refreshToken_deleteMany userId s = s\<lparr>refreshTokens := filter (\<lambda>r. rt_userId r \<noteq> userId) (refreshTokens s)\<rparr>"

text \<open>
  \<open>refresh_tokens.token\<close> is a required column with a unique index, \<open>userId\<close> a foreign
  key to \<open>users\<close>: a missing token, a token already stored or an unknown user refuses
  the insert.
\<close>

definition refreshToken_create :: "string option \<Rightarrow> ident \<Rightarrow> time \<Rightarrow> store \<Rightarrow> store option" where
  "refreshToken_create token userId expiresAt s =
     (case token of
        None \<Rightarrow> None
      | Some t \<Rightarrow>
          if t \<in> set (map rt_token (refreshTokens s)) \<or> userId \<notin> set (map u_id (users s)) then None
          else Some (s\<lparr>refreshTokens := refreshTokens s @
                          [\<lparr>rt_token = t, rt_userId = userId, rt_expiresAt = expiresAt\<rparr>]\<rparr>))"

text \<open>
  The last \<open>try\<close> block of the handler: delete the user's stored refresh tokens, then
  store the new one, expiring in seven days. Its \<open>catch\<close> only logs: a failure of either
  statement leaves the tables as they are at that point and the login goes on.
\<close>

definition replace_refresh_token :: "ident \<Rightarrow> string option \<Rightarrow> time \<Rightarrow> store \<Rightarrow> faults \<Rightarrow> store \<times> faults" where
  "replace_refresh_token userId refreshToken now s fs =
     (case await (Some (refreshToken_deleteMany userId s)) fs of
        (None, fs1) \<Rightarrow> (s, fs1)
      | (Some s1, fs1) \<Rightarrow>
          (case await (refreshToken_create refreshToken userId (now + 7 * 24 * 60 * 60 * 1000) s1) fs1 of
             (None, fs2) \<Rightarrow> (s1, fs2)
           | (Some s2, fs2) \<Rightarrow> (s2, fs2)))"

definition post_auth_login ::
  "login_env \<Rightarrow> string option \<Rightarrow> string option \<Rightarrow> time \<Rightarrow> store \<Rightarrow> faults \<Rightarrow> response \<times> store \<times> faults" where
  "post_auth_login env email password now s fs =
     (if \<not> truthy email \<or> \<not> truthy password then ((400, ErrorBody EmailPasswordRequired), s, fs)
      else
        case await (Some (find (\<lambda>u. u_email u = the email) (users s))) fs of
          (None, fs1) \<Rightarrow> ((500, ErrorBody LoginFailed), s, fs1)
        | (Some None, fs1) \<Rightarrow> ((401, ErrorBody InvalidCredentials), s, fs1)
        | (Some (Some user), fs1) \<Rightarrow>
            if \<not> u_isActive user then ((401, ErrorBody InvalidCredentials), s, fs1)
            else if \<not> bcrypt_compare env (the password) (u_password user)
            then ((401, ErrorBody InvalidCredentials), s, fs1)
            else
              (case (case await (user_update_lastLogin (u_id user) now s) fs1 of
                       (None, fs2) \<Rightarrow> (s, fs2)
                     | (Some s2, fs2) \<Rightarrow> (s2, fs2)) of
                 (s2, fs2) \<Rightarrow>
                   (case (if \<not> truthy (JWT_SECRET env) \<or> \<not> truthy (REFRESH_TOKEN_SECRET env) then None
                          else generateTokens env (u_id user) (u_email user) (u_role user)) of
                      None \<Rightarrow> ((500, ErrorBody TokenGenerationFailed), s2, fs2)
                    | Some (accessToken, refreshToken) \<Rightarrow>
                        (case replace_refresh_token (u_id user) refreshToken now s2 fs2 of
                           (s4, fs4) \<Rightarrow>
                             ((200, LoginOk user accessToken
                                      (if truthy refreshToken then refreshToken else None)),
                              s4, fs4)))))"

section \<open>The schema's foreign keys (prisma/migrations, schema.sql)\<close>

text \<open>
  The relationships between the tables are the foreign keys of the schema: the MySQL
  script \<open>schema.sql\<close> declares them inline, and the migrations add the same keys with
  \<open>ALTER TABLE ... ADD CONSTRAINT ... FOREIGN KEY ... REFERENCES ... ON DELETE ...\<close>.
  Every key references the \<open>id\<close> column of its parent table. The only other action the
  migrations ever use is \<open>SET NULL\<close>, on a key of the \<open>gantt\<close> table, which a later
  migration drops together with its keys.
\<close>

datatype on_delete = Cascade | SetNull

record foreign_key =
  fk_table :: string
  fk_column :: string
  fk_references :: string
  fk_on_delete :: on_delete

definition foreign_keys :: "foreign_key list" where
  "foreign_keys =
     [\<lparr>fk_table = ''friends'', fk_column = ''userId'', fk_references = ''users'', fk_on_delete = Cascade\<rparr>,
      \<lparr>fk_table = ''friends'', fk_column = ''friendId'', fk_references = ''users'', fk_on_delete = Cascade\<rparr>,
      \<lparr>fk_table = ''personal_todos'', fk_column = ''userId'', fk_references = ''users'', fk_on_delete = Cascade\<rparr>,
      \<lparr>fk_table = ''workspaces'', fk_column = ''ownerId'', fk_references = ''users'', fk_on_delete = Cascade\<rparr>,
      \<lparr>fk_table = ''workspace_members'', fk_column = ''workspaceId'', fk_references = ''workspaces'',
        fk_on_delete = Cascade\<rparr>,
      \<lparr>fk_table = ''workspace_members'', fk_column = ''userId'', fk_references = ''users'', fk_on_delete = Cascade\<rparr>,
      \<lparr>fk_table = ''group_tasks'', fk_column = ''workspaceId'', fk_references = ''workspaces'',
        fk_on_delete = Cascade\<rparr>,
      \<lparr>fk_table = ''refresh_tokens'', fk_column = ''userId'', fk_references = ''users'', fk_on_delete = Cascade\<rparr>,
      \<lparr>fk_table = ''chat_messages'', fk_column = ''workspaceId'', fk_references = ''workspaces'',
        fk_on_delete = Cascade\<rparr>,
      \<lparr>fk_table = ''chat_messages'', fk_column = ''userId'', fk_references = ''users'', fk_on_delete = Cascade\<rparr>]"

text \<open>
  A database for the purpose of deletion: each row with its table, its primary key and
  the non-null values of its foreign-key columns.
\<close>

record row =
  row_table :: string
  row_id :: ident
  row_refs :: "(string \<times> ident) list"

text \<open>
  \<open>DELETE FROM t WHERE id = i\<close> as the database engine executes it: the row goes, every
  row that references it through an \<open>ON DELETE CASCADE\<close> key goes with it and is put
  on the list of deletions still to be propagated, and a reference through an
  \<open>ON DELETE SET NULL\<close> key is set to \<open>NULL\<close>.
\<close>

definition referencing :: "foreign_key list \<Rightarrow> on_delete \<Rightarrow> string \<Rightarrow> ident \<Rightarrow> row \<Rightarrow> bool" where
  "referencing fks action t i r =
     (\<exists>fk \<in> set fks. fk_references fk = t \<and> fk_on_delete fk = action \<and> fk_table fk = row_table r \<and>
                      (fk_column fk, i) \<in> set (row_refs r))"

definition set_null :: "foreign_key list \<Rightarrow> string \<Rightarrow> ident \<Rightarrow> row \<Rightarrow> row" where
  "set_null fks t i r =
     r\<lparr>row_refs := filter (\<lambda>(c, v). \<not> (v = i \<and> (\<exists>fk \<in> set fks. fk_references fk = t \<and> fk_on_delete fk = SetNull \<and>
                                                   fk_table fk = row_table r \<and> fk_column fk = c)))
                           (row_refs r)\<rparr>"

function sql_delete :: "foreign_key list \<Rightarrow> (string \<times> ident) list \<Rightarrow> row list \<Rightarrow> row list" where
  "sql_delete fks [] db = db"
| "sql_delete fks ((t, i) # pending) db =
     sql_delete fks
       (pending @ map (\<lambda>r. (row_table r, row_id r)) (filter (referencing fks Cascade t i) db))
       (map (set_null fks t i)
            (filter (\<lambda>r. \<not> (row_table r = t \<and> row_id r = i) \<and> \<not> referencing fks Cascade t i r) db))"
  by pat_completeness auto
termination
proof (relation "measure (\<lambda>(fks, pending, db). 2 * length db + length pending)")
  show "wf (measure (\<lambda>(fks, pending, db). 2 * length db + length pending))" by simp
next
  fix fks :: "foreign_key list" and t i :: string and pending :: "(string \<times> ident) list" and db :: "row list"
  let ?C = "referencing fks Cascade t i"
  have "length (filter (\<lambda>r. \<not> (row_table r = t \<and> row_id r = i) \<and> \<not> ?C r) db) \<le> length (filter (\<lambda>r. \<not> ?C r) db)"
  proof -
    have "filter (\<lambda>r. \<not> (row_table r = t \<and> row_id r = i) \<and> \<not> ?C r) db
            = filter (\<lambda>r. \<not> (row_table r = t \<and> row_id r = i)) (filter (\<lambda>r. \<not> ?C r) db)"
      by (simp add: conj_commute)
    then show ?thesis by (metis length_filter_le)
  qed
  moreover have "length (filter ?C db) + length (filter (\<lambda>r. \<not> ?C r) db) = length db"
    by (rule sum_length_filter_compl)
  ultimately show "((fks, pending @ map (\<lambda>r. (row_table r, row_id r)) (filter ?C db),
          map (set_null fks t i) (filter (\<lambda>r. \<not> (row_table r = t \<and> row_id r = i) \<and> \<not> ?C r) db)),
         (fks, (t, i) # pending, db))
        \<in> measure (\<lambda>(fks, pending, db). 2 * length db + length pending)"
    by simp
qed

text \<open>
  \<open>prisma.workspace.delete({ where: { id } })\<close> and its like: the call throws when there
  is no such row, and otherwise deletes it as above.
\<close>

definition prisma_delete :: "foreign_key list \<Rightarrow> string \<Rightarrow> ident \<Rightarrow> row list \<Rightarrow> row list option" where
  "prisma_delete fks t i db =
     (if (t, i) \<in> set (map (\<lambda>r. (row_table r, row_id r)) db) then Some (sql_delete fks [(t, i)] db) else None)"

section \<open>Predicates on the tables\<close>

text \<open>
  The vocabulary of the statements below. Statement \<open>k\<close> of a run (counted from 0) is
  rejected under a schedule when the schedule holds a flag for it and the flag is set:
\<close>

definition thrown :: "faults \<Rightarrow> nat \<Rightarrow> bool" where
  "thrown fs k = (k < length fs \<and> fs ! k)"

text \<open>
  Ownership, accepted membership and the presence of a task in a workspace, read off the
  tables:
\<close>

definition owns_workspace :: "store \<Rightarrow> ident \<Rightarrow> ident \<Rightarrow> bool" where
  "owns_workspace s userId wsId = (\<exists>w \<in> set (workspaces s). ws_id w = wsId \<and> ws_ownerId w = userId)"

definition accepted_member :: "store \<Rightarrow> ident \<Rightarrow> ident \<Rightarrow> bool" where
  "accepted_member s userId wsId =
     (\<exists>m \<in> set (workspaceMembers s). wm_workspaceId m = wsId \<and> wm_userId m = userId \<and> wm_accepted m)"

definition task_in_workspace :: "store \<Rightarrow> ident \<Rightarrow> ident \<Rightarrow> bool" where
  "task_in_workspace s taskId wsId = (\<exists>t \<in> set (groupTasks s). gt_id t = taskId \<and> gt_workspaceId t = wsId)"

text \<open>The owner of a workspace as \<open>workspace.findUnique({ where: { id } })\<close> finds it.\<close>

definition workspace_owner :: "store \<Rightarrow> ident \<Rightarrow> ident option" where
  "workspace_owner s wsId = map_option ws_ownerId (find (\<lambda>w. ws_id w = wsId) (workspaces s))"

text \<open>
  The stored counter of a notification row is exact when it equals the number of
  messages of the row's workspace created after the row's \<open>lastReadAt\<close>; the claimed
  invariant is that every row is exact.
\<close>

definition counter_exact :: "store \<Rightarrow> chatNotification \<Rightarrow> bool" where
  "counter_exact s n = (cn_unreadCount n = count_unread (cn_workspaceId n) (cn_lastReadAt n) s)"

definition unread_invariant :: "store \<Rightarrow> bool" where
  "unread_invariant s = (\<forall>n \<in> set (chatNotifications s). counter_exact s n)"

text \<open>
  What the send handler counts: the messages of the row's workspace created after the
  row's \<open>lastReadAt\<close> and written by another user than the row's.
\<close>

definition unread_from_others :: "store \<Rightarrow> chatNotification \<Rightarrow> int" where
  "unread_from_others s n =
     int (length (filter (\<lambda>m. cm_workspaceId m = cn_workspaceId n \<and> cm_createdAt m > cn_lastReadAt n \<and>
                               cm_userId m \<noteq> cn_userId n) (chatMessages s)))"

definition counter_tracks_others :: "store \<Rightarrow> chatNotification \<Rightarrow> bool" where
  "counter_tracks_others s n = (cn_unreadCount n = unread_from_others s n)"

text \<open>
  The unique indexes of the schema on \<open>(userId, workspaceId)\<close> of the notification and
  membership rows. A user other than the author is listed once among the recipients of
  a message when the user is an accepted member of the workspace or its owner, and not
  both.
\<close>

definition notification_keys_unique :: "store \<Rightarrow> bool" where
  "notification_keys_unique s = distinct (map (\<lambda>n. (cn_userId n, cn_workspaceId n)) (chatNotifications s))"

definition membership_keys_unique :: "store \<Rightarrow> bool" where
  "membership_keys_unique s = distinct (map (\<lambda>m. (wm_workspaceId m, wm_userId m)) (workspaceMembers s))"

definition listed_once :: "store \<Rightarrow> ident \<Rightarrow> ident \<Rightarrow> ident \<Rightarrow> bool" where
  "listed_once s author wsId u =
     (u \<noteq> author \<and> (accepted_member s u wsId \<noteq> (workspace_owner s wsId = Some u)))"

text \<open>
  A notification row after the recalculation of the users \<open>us\<close> in workspace \<open>w\<close>
  against the messages of \<open>s\<close> (used to describe the result of the loop in
  \<open>DELETE /chat/message/:messageId\<close>).
\<close>

definition recalculated :: "ident set \<Rightarrow> ident \<Rightarrow> store \<Rightarrow> chatNotification \<Rightarrow> chatNotification" where
  "recalculated us w s n =
     (if cn_workspaceId n = w \<and> cn_userId n \<in> us
      then n\<lparr>cn_unreadCount := count_unread w (cn_lastReadAt n) s\<rparr> else n)"

text \<open>The refresh tokens a user holds.\<close>

definition tokens_of :: "store \<Rightarrow> ident \<Rightarrow> refreshToken list" where
  "tokens_of s userId = filter (\<lambda>r. rt_userId r = userId) (refreshTokens s)"

text \<open>
  No row of the database is the row \<open>(t, i)\<close> or references it through a cascading
  foreign key.
\<close>

definition unreferenced :: "foreign_key list \<Rightarrow> string \<Rightarrow> ident \<Rightarrow> row list \<Rightarrow> bool" where
  "unreferenced fks t i db =
     (\<forall>r \<in> set db. \<not> (row_table r = t \<and> row_id r = i) \<and> \<not> referencing fks Cascade t i r)"

section \<open>Example states\<close>

text \<open>
  A small database used to evaluate the handlers: user \<open>u1\<close> owns workspace \<open>w1\<close>,
  \<open>u2\<close> and \<open>u3\<close> are its accepted members, \<open>u4\<close> is a stranger.
\<close>

definition demo_store :: store where
  "demo_store =
     \<lparr>users = [\<lparr>u_id = ''u1'', u_email = ''u1@x.io'', u_password = ''h1'', u_nickname = ''one'', u_avatar = None,
                 u_role = ''member'', u_isActive = True, u_lastLogin = None\<rparr>,
               \<lparr>u_id = ''u2'', u_email = ''u2@x.io'', u_password = ''h2'', u_nickname = ''two'', u_avatar = None,
                 u_role = ''member'', u_isActive = True, u_lastLogin = None\<rparr>,
               \<lparr>u_id = ''u3'', u_email = ''u3@x.io'', u_password = ''h3'', u_nickname = ''three'', u_avatar = None,
                 u_role = ''member'', u_isActive = True, u_lastLogin = None\<rparr>,
               \<lparr>u_id = ''u4'', u_email = ''u4@x.io'', u_password = ''h4'', u_nickname = ''four'', u_avatar = None,
                 u_role = ''member'', u_isActive = True, u_lastLogin = None\<rparr>],
      friends = [], personalTodos = [],
      workspaces = [\<lparr>ws_id = ''w1'', ws_name = ''team'', ws_ownerId = ''u1''\<rparr>],
      workspaceMembers = [\<lparr>wm_id = ''m2'', wm_workspaceId = ''w1'', wm_userId = ''u2'', wm_accepted = True\<rparr>,
                          \<lparr>wm_id = ''m3'', wm_workspaceId = ''w1'', wm_userId = ''u3'', wm_accepted = True\<rparr>],
      groupTasks = [\<lparr>gt_id = ''t1'', gt_workspaceId = ''w1'', gt_title = ''plan'', gt_description = None,
                     gt_department = ''BE'', gt_status = ''pending'', gt_startDate = 100, gt_dueDate = 900,
                     gt_createdAt = 50, gt_updatedAt = 50\<rparr>],
      chatMessages = [],
      chatNotifications = [\<lparr>cn_userId = ''u1'', cn_workspaceId = ''w1'', cn_unreadCount = 0, cn_lastReadAt = 1000\<rparr>,
                           \<lparr>cn_userId = ''u2'', cn_workspaceId = ''w1'', cn_unreadCount = 0, cn_lastReadAt = 1000\<rparr>,
                           \<lparr>cn_userId = ''u3'', cn_workspaceId = ''w1'', cn_unreadCount = 0, cn_lastReadAt = 1000\<rparr>],
      refreshTokens = []\<rparr>"

text \<open>
  The same database with a second workspace \<open>w2\<close>, owned by \<open>u4\<close>; and the first
  database with the owner \<open>u1\<close> holding an accepted membership of \<open>w1\<close> besides, as
  in the seeded data of \<open>prisma/seed.js\<close>.
\<close>

definition demo_store_two :: store where
  "demo_store_two =
     demo_store\<lparr>workspaces := [\<lparr>ws_id = ''w1'', ws_name = ''team'', ws_ownerId = ''u1''\<rparr>,
                               \<lparr>ws_id = ''w2'', ws_name = ''solo'', ws_ownerId = ''u4''\<rparr>]\<rparr>"

definition demo_store_seeded :: store where
  "demo_store_seeded =
     demo_store\<lparr>workspaceMembers :=
       [\<lparr>wm_id = ''m1'', wm_workspaceId = ''w1'', wm_userId = ''u1'', wm_accepted = True\<rparr>,
        \<lparr>wm_id = ''m2'', wm_workspaceId = ''w1'', wm_userId = ''u2'', wm_accepted = True\<rparr>,
        \<lparr>wm_id = ''m3'', wm_workspaceId = ''w1'', wm_userId = ''u3'', wm_accepted = True\<rparr>]\<rparr>"

text \<open>The message \<open>hi\<close> of \<open>u2\<close>, and the first database after it was sent and read.\<close>

definition demo_message :: chatMessage where
  "demo_message = \<lparr>cm_id = ''c1'', cm_workspaceId = ''w1'', cm_userId = ''u2'', cm_content = [0x68, 0x69], cm_createdAt = 2000\<rparr>"

definition demo_store_sent :: store where
  "demo_store_sent =
     demo_store\<lparr>chatMessages := [demo_message],
       chatNotifications := [\<lparr>cn_userId = ''u1'', cn_workspaceId = ''w1'', cn_unreadCount = 1, cn_lastReadAt = 1000\<rparr>,
                             \<lparr>cn_userId = ''u2'', cn_workspaceId = ''w1'', cn_unreadCount = 0, cn_lastReadAt = 1000\<rparr>,
                             \<lparr>cn_userId = ''u3'', cn_workspaceId = ''w1'', cn_unreadCount = 1, cn_lastReadAt = 1000\<rparr>]\<rparr>"

definition demo_store_read :: store where
  "demo_store_read =
     demo_store_sent\<lparr>chatNotifications :=
       [\<lparr>cn_userId = ''u1'', cn_workspaceId = ''w1'', cn_unreadCount = 1, cn_lastReadAt = 1000\<rparr>,
        \<lparr>cn_userId = ''u2'', cn_workspaceId = ''w1'', cn_unreadCount = 0, cn_lastReadAt = 3000\<rparr>,
        \<lparr>cn_userId = ''u3'', cn_workspaceId = ''w1'', cn_unreadCount = 1, cn_lastReadAt = 1000\<rparr>]\<rparr>"

text \<open>
  The database right after \<open>u1\<close> created workspace \<open>w1\<close> through \<open>POST /workspaces\<close>:
  the workspace row and the owner's notification row, and no membership row.
\<close>

definition demo_new_workspace :: store where
  "demo_new_workspace =
     \<lparr>users = [\<lparr>u_id = ''u1'', u_email = ''u1@x.io'', u_password = ''h1'', u_nickname = ''one'', u_avatar = None,
                 u_role = ''member'', u_isActive = True, u_lastLogin = None\<rparr>],
      friends = [], personalTodos = [],
      workspaces = [\<lparr>ws_id = ''w1'', ws_name = ''team'', ws_ownerId = ''u1''\<rparr>],
      workspaceMembers = [], groupTasks = [], chatMessages = [],
      chatNotifications = [\<lparr>cn_userId = ''u1'', cn_workspaceId = ''w1'', cn_unreadCount = 0, cn_lastReadAt = 1000\<rparr>],
      refreshTokens = []\<rparr>"

text \<open>
  A login environment (the stored hash of password \<open>p\<close> is \<open>h\<close> followed by \<open>p\<close>) and a
  database in which \<open>u1\<close> and \<open>u2\<close> each hold a refresh token from an earlier login.
\<close>

definition demo_login_env :: login_env where
  "demo_login_env =
     \<lparr>bcrypt_compare = (\<lambda>password hash. hash = ''h'' @ password),
      generateTokens = (\<lambda>userId email role. Some (''access-'' @ userId, Some (''refresh-'' @ userId))),
      JWT_SECRET = Some ''jwt-secret'',
      REFRESH_TOKEN_SECRET = Some ''refresh-secret''\<rparr>"

definition demo_store_tokens :: store where
  "demo_store_tokens =
     demo_store\<lparr>refreshTokens := [\<lparr>rt_token = ''old-1'', rt_userId = ''u1'', rt_expiresAt = 9000\<rparr>,
                                 \<lparr>rt_token = ''old-2'', rt_userId = ''u2'', rt_expiresAt = 9000\<rparr>]\<rparr>"

text \<open>A database in the row form of the deletion model.\<close>

definition demo_rows :: "row list" where
  "demo_rows =
     [\<lparr>row_table = ''users'', row_id = ''u1'', row_refs = []\<rparr>,
      \<lparr>row_table = ''users'', row_id = ''u2'', row_refs = []\<rparr>,
      \<lparr>row_table = ''workspaces'', row_id = ''w1'', row_refs = [(''ownerId'', ''u1'')]\<rparr>,
      \<lparr>row_table = ''workspaces'', row_id = ''w2'', row_refs = [(''ownerId'', ''u2'')]\<rparr>,
      \<lparr>row_table = ''workspace_members'', row_id = ''m1'', row_refs = [(''workspaceId'', ''w1''), (''userId'', ''u2'')]\<rparr>,
      \<lparr>row_table = ''group_tasks'', row_id = ''t1'', row_refs = [(''workspaceId'', ''w1'')]\<rparr>,
      \<lparr>row_table = ''group_tasks'', row_id = ''t2'', row_refs = [(''workspaceId'', ''w2'')]\<rparr>,
      \<lparr>row_table = ''chat_messages'', row_id = ''c1'', row_refs = [(''workspaceId'', ''w1''), (''userId'', ''u2'')]\<rparr>,
      \<lparr>row_table = ''friends'', row_id = ''f1'', row_refs = [(''userId'', ''u2''), (''friendId'', ''u1'')]\<rparr>,
      \<lparr>row_table = ''personal_todos'', row_id = ''p1'', row_refs = [(''userId'', ''u2'')]\<rparr>,
      \<lparr>row_table = ''refresh_tokens'', row_id = ''r1'', row_refs = [(''userId'', ''u1'')]\<rparr>]"

text \<open>The empty database.\<close>

definition demo_empty_store :: store where
  "demo_empty_store =
     \<lparr>users = [], friends = [], personalTodos = [], workspaces = [], workspaceMembers = [], groupTasks = [],
      chatMessages = [], chatNotifications = [], refreshTokens = []\<rparr>"

section \<open>Verified properties\<close>

subsection \<open>Statements and queries\<close>

lemma await_no_faults [simp]: "await r [] = (r, [])"
  by (simp add: await_def)

lemma await_cases: "fst (await r fs) = None \<or> fst (await r fs) = r"
  by (simp add: await_def split: list.splits)

lemma await_result: "await r fs = (Some x, fs') \<Longrightarrow> r = Some x"
  by (auto simp: await_def split: list.splits if_splits)

lemma thrown_Nil [simp]: "\<not> thrown [] k"
  by (simp add: thrown_def)

lemma thrown_Cons_0 [simp]: "thrown (b # fs) 0 = b"
  by (simp add: thrown_def)

lemma thrown_Cons_Suc [simp]: "thrown (b # fs) (Suc k) = thrown fs k"
  by (simp add: thrown_def)

lemma thrown_tl [simp]: "thrown (tl fs) k = thrown fs (Suc k)"
  by (cases fs) simp_all

lemma await_thrown: "await r fs = (if thrown fs 0 then None else r, tl fs)"
  by (cases fs) (simp_all add: await_def)

lemma find_owner_iff:
  "(find (\<lambda>w. ws_id w = wsId \<and> ws_ownerId w = userId) (workspaces s) = None) = (\<not> owns_workspace s userId wsId)"
  by (auto simp: owns_workspace_def find_None_iff)

lemma find_member_iff:
  "(find (\<lambda>m. wm_workspaceId m = wsId \<and> wm_userId m = userId \<and> wm_accepted m) (workspaceMembers s) = None)
     = (\<not> accepted_member s userId wsId)"
  by (auto simp: accepted_member_def find_None_iff)

lemma find_task_iff:
  "(find (\<lambda>t. gt_id t = taskId \<and> gt_workspaceId t = wsId) (groupTasks s) = None) = (\<not> task_in_workspace s taskId wsId)"
  by (auto simp: task_in_workspace_def find_None_iff)

lemma where_string_Text [simp]: "where_string (Text t) = Some (\<lambda>x. x = t)"
  by (simp add: where_string_def)

lemma checkWorkspaceMembership_sound:
  assumes "checkWorkspaceMembership userId (Text wsId) s fs = (True, fs')"
  shows "owns_workspace s userId wsId \<or> accepted_member s userId wsId"
proof (cases "owns_workspace s userId wsId")
  case True
  then show ?thesis by simp
next
  case False
  then have none: "find (\<lambda>w. ws_id w = wsId \<and> ws_ownerId w = userId) (workspaces s) = None"
    by (simp add: find_owner_iff)
  show ?thesis
  proof (rule ccontr)
    assume "\<not> ?thesis"
    then have "find (\<lambda>m. wm_workspaceId m = wsId \<and> wm_userId m = userId \<and> wm_accepted m) (workspaceMembers s) = None"
      by (simp add: find_member_iff)
    with none assms show False
      by (auto simp: checkWorkspaceMembership_def await_def split: list.splits if_splits)
  qed
qed

lemma checkWorkspaceMembership_no_faults:
  "checkWorkspaceMembership userId (Text wsId) s [] = (owns_workspace s userId wsId \<or> accepted_member s userId wsId, [])"
proof (cases "find (\<lambda>w. ws_id w = wsId \<and> ws_ownerId w = userId) (workspaces s)")
  case None
  then have "\<not> owns_workspace s userId wsId" by (simp add: find_owner_iff)
  with None show ?thesis
    by (simp add: checkWorkspaceMembership_def find_member_iff)
next
  case (Some w)
  then have "owns_workspace s userId wsId" using find_owner_iff[of wsId userId s] by simp
  with Some show ?thesis
    by (simp add: checkWorkspaceMembership_def)
qed

text \<open>The first statement of the check is the ownership query; when it is rejected the answer is \<open>false\<close>.\<close>

lemma checkWorkspaceMembership_rejected:
  "checkWorkspaceMembership userId wsId s (True # fs) = (False, fs)"
  by (simp add: checkWorkspaceMembership_def await_def)

subsection \<open>Socket events: task_update\<close>

text \<open>
  For a payload whose \<open>wsId\<close> and \<open>taskId\<close> are strings the handler does what the
  specification says. With the database answering every statement its answer is
  determined as follows: an empty identifier is reported as missing; a sender who is
  neither owner nor accepted member of the workspace is refused, whether or not the task
  exists; a task that does not belong to the workspace is reported as not found; and
  otherwise the one emission is the broadcast to the room of the workspace, carrying the
  client's task data or, when there is none, the record found in the store.
\<close>

lemma task_update_text_ids:
  assumes "tu_wsId d = Text w" "tu_taskId d = Text t"
  shows "task_update sock (Some d) now s [] =
           (if w = [] \<or> t = [] then [(ToSender, Error WorkspaceAndTaskIdRequired)]
            else if \<not> (owns_workspace s (p_userId (sock_user sock)) w \<or>
                        accepted_member s (p_userId (sock_user sock)) w)
            then [(ToSender, Error NoWorkspaceAccess)]
            else (case find (\<lambda>x. gt_id x = t \<and> gt_workspaceId x = w) (groupTasks s) of
                    None \<Rightarrow> [(ToSender, Error TaskNotFound)]
                  | Some task \<Rightarrow>
                      [(ToRoom (workspace_room w),
                        TaskUpdated (Text t)
                          (if truthy (tu_action d) then the (tu_action d) else ''updated'')
                          (p_userId (sock_user sock))
                          (if truthy (tu_taskData d) then ClientTaskData (the (tu_taskData d))
                           else CanonicalTask task)
                          now)]),
            [])"
  using assms
  by (simp add: task_update_def truthy_value_def to_string_def checkWorkspaceMembership_no_faults
        split: option.splits)

text \<open>
  Whatever the database does, a payload with string identifiers is broadcast only to the
  room of a workspace the sender has access to and that holds the task; the membership
  check is the first statement issued, and the broadcast is not sent when it is rejected.
\<close>

lemma task_update_text_ids_broadcast:
  assumes "tu_wsId d = Text w" "tu_taskId d = Text t"
    and "(ToRoom room, ev) \<in> set (fst (task_update sock (Some d) now s fs))"
  shows "room = workspace_room w \<and>
         (owns_workspace s (p_userId (sock_user sock)) w \<or> accepted_member s (p_userId (sock_user sock)) w) \<and>
         task_in_workspace s t w \<and> \<not> thrown fs 0"
proof -
  have tr: "truthy_value (tu_wsId d) \<and> truthy_value (tu_taskId d)"
  proof (rule ccontr)
    assume "\<not> ?thesis"
    then have "fst (task_update sock (Some d) now s fs) = [(ToSender, Error WorkspaceAndTaskIdRequired)]"
      by (auto simp: task_update_def Let_def)
    with assms(3) show False by simp
  qed
  obtain b fs1 where c: "checkWorkspaceMembership (p_userId (sock_user sock)) (Text w) s fs = (b, fs1)"
    by fastforce
  from assms tr c have b: "b"
    by (cases b) (auto simp: task_update_def Let_def)
  with c have "checkWorkspaceMembership (p_userId (sock_user sock)) (Text w) s fs = (True, fs1)" by simp
  then have acc: "owns_workspace s (p_userId (sock_user sock)) w \<or> accepted_member s (p_userId (sock_user sock)) w"
    by (rule checkWorkspaceMembership_sound)
  have nt: "\<not> thrown fs 0"
  proof
    assume "thrown fs 0"
    then obtain fs0 where "fs = True # fs0" by (cases fs) (auto simp: thrown_def)
    with c b show False by (simp add: checkWorkspaceMembership_rejected)
  qed
  obtain r fs2 where a: "await (Some (find (\<lambda>x. gt_id x = t \<and> gt_workspaceId x = w) (groupTasks s))) fs1 = (r, fs2)"
    by fastforce
  from assms tr c b a obtain task where r: "r = Some (Some task)"
    by (cases r; cases "the r") (auto simp: task_update_def Let_def)
  with a have "find (\<lambda>x. gt_id x = t \<and> gt_workspaceId x = w) (groupTasks s) = Some task"
    using await_result by fastforce
  then have task: "task_in_workspace s t w"
    using find_task_iff[of t w s] by simp
  from assms tr c b a r have "room = workspace_room w"
    by (simp add: task_update_def Let_def to_string_def)
  with acc task nt show ?thesis by simp
qed

text \<open>
  C3. The handler admits any truthy \<open>wsId\<close>. User \<open>u4\<close> owns workspace \<open>w2\<close> and is
  neither owner nor member of \<open>w1\<close>, which holds task \<open>t1\<close>. With the filter object
  \<open>{ not: "x" }\<close> as \<open>wsId\<close> and \<open>t1\<close> as \<open>taskId\<close>, the ownership query of
  \<open>checkWorkspaceMembership\<close> finds \<open>w2\<close>, the task query finds \<open>t1\<close> (its workspace
  is not \<open>x\<close>), and the record of \<open>t1\<close> is broadcast, with no error event, to the room
  named by the string conversion of the object. That name is the identifier of no
  workspace.
\<close>

theorem task_update_filter_object:
  "\<not> owns_workspace demo_store_two ''u4'' ''w1'' \<and> \<not> accepted_member demo_store_two ''u4'' ''w1'' \<and>
   task_in_workspace demo_store_two ''t1'' ''w1'' \<and>
   \<not> owns_workspace demo_store_two ''u4'' ''[object Object]'' \<and>
   \<not> accepted_member demo_store_two ''u4'' ''[object Object]'' \<and>
   \<not> task_in_workspace demo_store_two ''t1'' ''[object Object]'' \<and>
   task_update
     \<lparr>sock_id = ''s4'', sock_user = \<lparr>p_userId = ''u4'', p_email = ''u4@x.io''\<rparr>, sock_rooms = [''s4'']\<rparr>
     (Some \<lparr>tu_wsId = FilterObject (\<lambda>x. x \<noteq> ''x''), tu_taskId = Text ''t1'', tu_action = None,
            tu_taskData = None\<rparr>)
     1000 demo_store_two []
   = ([(ToRoom ''workspace_[object Object]'',
        TaskUpdated (Text ''t1'') ''updated'' ''u4''
          (CanonicalTask
             \<lparr>gt_id = ''t1'', gt_workspaceId = ''w1'', gt_title = ''plan'', gt_description = None,
              gt_department = ''BE'', gt_status = ''pending'', gt_startDate = 100, gt_dueDate = 900,
              gt_createdAt = 50, gt_updatedAt = 50\<rparr>)
          1000)], [])"
  by (simp add: owns_workspace_def accepted_member_def task_in_workspace_def demo_store_two_def demo_store_def
        task_update_def checkWorkspaceMembership_def truthy_value_def truthy_def to_string_def where_string_def
        workspace_room_def)

theorem task_update_filter_object_witness:
  "map fst (fst (task_update
     \<lparr>sock_id = ''s4'', sock_user = \<lparr>p_userId = ''u4'', p_email = ''u4@x.io''\<rparr>, sock_rooms = [''s4'']\<rparr>
     (Some \<lparr>tu_wsId = FilterObject (\<lambda>x. x \<noteq> ''x''), tu_taskId = Text ''t1'', tu_action = None,
            tu_taskData = None\<rparr>)
     1000 demo_store_two []))
   = [ToRoom ''workspace_[object Object]'']"
  using task_update_filter_object by simp

subsection \<open>Socket events: connection and friend_request\<close>

text \<open>
  C4. A connection without a token is refused with the "token not provided" error, a
  connection whose token fails verification with the "invalid token" error, and the
  connection listener (which registers the event handlers) runs only on a socket whose
  \<open>user\<close> is the payload decoded from the token.
\<close>

theorem socket_connection_authenticated:
  "(\<not> truthy (hs_token hs) \<longrightarrow>
      io_connection jwt_verify env_JWT_SECRET on_connection hs = Inl TokenNotProvided) \<and>
   (truthy (hs_token hs) \<and> jwt_verify (the (hs_token hs)) (jwt_secret env_JWT_SECRET) = None \<longrightarrow>
      io_connection jwt_verify env_JWT_SECRET on_connection hs = Inl TokenInvalid) \<and>
   (\<forall>h. io_connection jwt_verify env_JWT_SECRET on_connection hs = Inr h \<longrightarrow>
      (\<exists>sock. io_use_auth jwt_verify env_JWT_SECRET hs = Inr sock \<and> h = on_connection sock \<and>
         truthy (hs_token hs) \<and>
         jwt_verify (the (hs_token hs)) (jwt_secret env_JWT_SECRET) = Some (sock_user sock)))"
  by (auto simp: io_connection_def io_use_auth_def split: option.splits sum.splits)

theorem socket_connection_authenticated_witness:
  "io_connection (\<lambda>tok sec. if tok = ''good'' \<and> sec = ''secret_key'' then Some \<lparr>p_userId = ''u1'', p_email = ''u1@x.io''\<rparr> else None)
      None sock_user \<lparr>hs_socketId = ''s1'', hs_token = None\<rparr> = Inl TokenNotProvided \<and>
   io_connection (\<lambda>tok sec. if tok = ''good'' \<and> sec = ''secret_key'' then Some \<lparr>p_userId = ''u1'', p_email = ''u1@x.io''\<rparr> else None)
      None sock_user \<lparr>hs_socketId = ''s1'', hs_token = Some ''forged''\<rparr> = Inl TokenInvalid \<and>
   io_connection (\<lambda>tok sec. if tok = ''good'' \<and> sec = ''secret_key'' then Some \<lparr>p_userId = ''u1'', p_email = ''u1@x.io''\<rparr> else None)
      None sock_user \<lparr>hs_socketId = ''s1'', hs_token = Some ''good''\<rparr> = Inr \<lparr>p_userId = ''u1'', p_email = ''u1@x.io''\<rparr>"
  using socket_connection_authenticated
      [of "\<lparr>hs_socketId = ''s1'', hs_token = None\<rparr>"
          "\<lambda>tok sec. if tok = ''good'' \<and> sec = ''secret_key'' then Some \<lparr>p_userId = ''u1'', p_email = ''u1@x.io''\<rparr> else None"
          None sock_user]
    socket_connection_authenticated
      [of "\<lparr>hs_socketId = ''s1'', hs_token = Some ''forged''\<rparr>"
          "\<lambda>tok sec. if tok = ''good'' \<and> sec = ''secret_key'' then Some \<lparr>p_userId = ''u1'', p_email = ''u1@x.io''\<rparr> else None"
          None sock_user]
    socket_connection_authenticated
      [of "\<lparr>hs_socketId = ''s1'', hs_token = Some ''good''\<rparr>"
          "\<lambda>tok sec. if tok = ''good'' \<and> sec = ''secret_key'' then Some \<lparr>p_userId = ''u1'', p_email = ''u1@x.io''\<rparr> else None"
          None sock_user]
  by (simp add: truthy_def jwt_secret_def io_connection_def io_use_auth_def)

text \<open>
  C8. For a non-empty \<open>targetUserId\<close> the \<open>friend_request\<close> handler emits
  \<open>friend_request_received\<close> to the personal room of the target, whatever the tables
  hold (in particular when they hold no such user and no friendship), and issues no
  statement against the store.
\<close>

theorem friend_request_unvalidated:
  "truthy (fr_targetUserId d) \<Longrightarrow>
   friend_request sock (Some d) now s fs =
     ([(ToRoom (user_room (the (fr_targetUserId d))),
        FriendRequestReceived (p_userId (sock_user sock)) (p_email (sock_user sock))
          (if truthy (fr_action d) then the (fr_action d) else ''sent'') now)], fs)"
  by (simp add: friend_request_def)

theorem friend_request_unvalidated_witness:
  "truthy (Some ''ghost'') \<and>
   friend_request
     \<lparr>sock_id = ''s1'', sock_user = \<lparr>p_userId = ''u1'', p_email = ''u1@x.io''\<rparr>, sock_rooms = [''s1'']\<rparr>
     (Some \<lparr>fr_targetUserId = Some ''ghost'', fr_action = None\<rparr>) 1000 demo_empty_store []
   = ([(ToRoom ''user_ghost'', FriendRequestReceived ''u1'' ''u1@x.io'' ''sent'' 1000)], [])"
  using friend_request_unvalidated
     [where d = "\<lparr>fr_targetUserId = Some ''ghost'', fr_action = None\<rparr>"
        and sock = "\<lparr>sock_id = ''s1'', sock_user = \<lparr>p_userId = ''u1'', p_email = ''u1@x.io''\<rparr>, sock_rooms = [''s1'']\<rparr>"
        and now = 1000 and s = demo_empty_store and fs = "[]"]
  by (simp add: truthy_def user_room_def)

subsection \<open>Lists and conditional updates\<close>

lemma find_SomeD: "find P xs = Some x \<Longrightarrow> P x \<and> x \<in> set xs"
  by (induction xs) (auto split: if_splits)

lemma find_NoneD: "find P xs = None \<Longrightarrow> x \<in> set xs \<Longrightarrow> \<not> P x"
  by (simp add: find_None_iff)

lemma in_set_map_cond:
  "n \<in> set (map (\<lambda>x. if P x then f x else x) xs) \<Longrightarrow> (\<exists>x \<in> set xs. P x \<and> n = f x) \<or> (n \<in> set xs \<and> \<not> P n)"
  by (induction xs) (auto split: if_splits)

lemma map_cond_hit: "x \<in> set xs \<Longrightarrow> P x \<Longrightarrow> f x \<in> set (map (\<lambda>x. if P x then f x else x) xs)"
  by (induction xs) auto

lemma map_cond_miss: "x \<in> set xs \<Longrightarrow> \<not> P x \<Longrightarrow> x \<in> set (map (\<lambda>x. if P x then f x else x) xs)"
  by (induction xs) auto

subsection \<open>Access to the chat history\<close>

text \<open>
  C6. The owner of a workspace who holds no membership row of it (the state right after
  the workspace was created) is refused by \<open>GET /chat/workspace/:workspaceId\<close> with 403,
  while \<open>POST /chat/workspace/:workspaceId/read\<close> and the socket event \<open>join_workspace\<close>
  grant the same user access to the same workspace.
\<close>

theorem chat_history_refuses_owner:
  "owns_workspace demo_new_workspace ''u1'' ''w1'' \<and>
   fst (get_chat_workspace findMany_page ''u1'' ''w1'' None None demo_new_workspace [])
     = (403, ErrorBody WorkspaceForbidden) \<and>
   fst (post_chat_workspace_read ''u1'' ''w1'' 2000 demo_new_workspace []) = (200, MarkedRead) \<and>
   fst (fst (join_workspace
     \<lparr>sock_id = ''s1'', sock_user = \<lparr>p_userId = ''u1'', p_email = ''u1@x.io''\<rparr>, sock_rooms = [''s1'']\<rparr>
     (Text ''w1'') demo_new_workspace []))
     = [(ToSender, JoinedWorkspace (Text ''w1'')),
        (ToRoomExceptSender ''workspace_w1'', UserJoined ''u1'' ''u1@x.io'')]"
  by (simp add: demo_new_workspace_def owns_workspace_def get_chat_workspace_def post_chat_workspace_read_def
        join_workspace_def checkWorkspaceMembership_def truthy_value_def to_string_def workspace_room_def
        upsert_read_def has_notification_def)

subsection \<open>Deleting a chat message\<close>









subsection \<open>The unread counter: marking read\<close>

lemma mark_read_result:
  assumes "post_chat_workspace_read userId wsId now s fs = ((200, b), s', fs')"
  shows "s' = upsert_read userId wsId now s"
  using assms
  by (auto simp: post_chat_workspace_read_def await_thrown split: if_splits)

lemma upsert_read_messages [simp]: "chatMessages (upsert_read u w now s) = chatMessages s"
  by (simp add: upsert_read_def)

lemma upsert_read_all:
  assumes "n \<in> set (chatNotifications (upsert_read u w now s))" "cn_userId n = u" "cn_workspaceId n = w"
  shows "cn_unreadCount n = 0 \<and> cn_lastReadAt n = now"
proof (cases "has_notification u w s")
  case True
  with assms(1) have "n \<in> set (map (\<lambda>x. if cn_userId x = u \<and> cn_workspaceId x = w
                         then x\<lparr>cn_unreadCount := 0, cn_lastReadAt := now\<rparr> else x) (chatNotifications s))"
    by (simp add: upsert_read_def)
  from in_set_map_cond[OF this]
  consider x where "n = x\<lparr>cn_unreadCount := 0, cn_lastReadAt := now\<rparr>"
    | "\<not> (cn_userId n = u \<and> cn_workspaceId n = w)" by blast
  then show ?thesis
  proof cases
    case 1
    then show ?thesis by simp
  next
    case 2
    with assms(2,3) show ?thesis by simp
  qed
next
  case False
  then have none: "\<forall>n \<in> set (chatNotifications s). \<not> (cn_userId n = u \<and> cn_workspaceId n = w)"
    by (simp add: has_notification_def find_None_iff)
  from False assms(1) have "n = \<lparr>cn_userId = u, cn_workspaceId = w, cn_unreadCount = 0, cn_lastReadAt = now\<rparr> \<or>
      n \<in> set (chatNotifications s)"
    by (simp add: upsert_read_def)
  with none assms(2,3) have "n = \<lparr>cn_userId = u, cn_workspaceId = w, cn_unreadCount = 0, cn_lastReadAt = now\<rparr>"
    by blast
  then show ?thesis by simp
qed

lemma upsert_read_ex:
  "\<exists>n \<in> set (chatNotifications (upsert_read u w now s)). cn_userId n = u \<and> cn_workspaceId n = w"
proof (cases "has_notification u w s")
  case True
  then obtain n0 where "find (\<lambda>n. cn_userId n = u \<and> cn_workspaceId n = w) (chatNotifications s) = Some n0"
    by (auto simp: has_notification_def)
  then have n0: "n0 \<in> set (chatNotifications s)" "cn_userId n0 = u" "cn_workspaceId n0 = w"
    using find_SomeD by fastforce+
  let ?n = "n0\<lparr>cn_unreadCount := 0, cn_lastReadAt := now\<rparr>"
  have "?n \<in> (\<lambda>n. if cn_userId n = u \<and> cn_workspaceId n = w
                         then n\<lparr>cn_unreadCount := 0, cn_lastReadAt := now\<rparr> else n) ` set (chatNotifications s)"
    using n0 by (intro image_eqI[of _ _ n0]) simp_all
  then have "?n \<in> set (chatNotifications (upsert_read u w now s))"
    using True by (simp add: upsert_read_def)
  moreover have "cn_userId ?n = u \<and> cn_workspaceId ?n = w" using n0 by simp
  ultimately show ?thesis by blast
next
  case False
  then show ?thesis by (simp add: upsert_read_def)
qed

lemma unread_from_others_zero:
  assumes "\<forall>m \<in> set (chatMessages s). cm_workspaceId m = cn_workspaceId n \<and> cm_userId m \<noteq> cn_userId n
             \<longrightarrow> cm_createdAt m \<le> cn_lastReadAt n"
  shows "unread_from_others s n = 0"
  using assms by (auto simp: unread_from_others_def filter_empty_conv)

lemma mark_read_tracks:
  assumes "post_chat_workspace_read userId wsId now s fs = ((200, b), s', fs')"
  shows "\<exists>n \<in> set (chatNotifications s'). cn_userId n = userId \<and> cn_workspaceId n = wsId"
    and "n \<in> set (chatNotifications s') \<Longrightarrow> cn_userId n = userId \<and> cn_workspaceId n = wsId \<Longrightarrow>
           cn_unreadCount n = 0 \<and> cn_lastReadAt n = now"
    and "n \<in> set (chatNotifications s') \<Longrightarrow> cn_userId n = userId \<and> cn_workspaceId n = wsId \<Longrightarrow>
           \<forall>m \<in> set (chatMessages s). cm_workspaceId m = wsId \<and> cm_userId m \<noteq> userId \<longrightarrow> cm_createdAt m \<le> now \<Longrightarrow>
           counter_tracks_others s' n"
proof -
  have s': "s' = upsert_read userId wsId now s" using assms(1) by (rule mark_read_result)
  show "\<exists>n \<in> set (chatNotifications s'). cn_userId n = userId \<and> cn_workspaceId n = wsId"
    unfolding s' by (rule upsert_read_ex)
  show v: "cn_unreadCount n = 0 \<and> cn_lastReadAt n = now"
    if "n \<in> set (chatNotifications s')" "cn_userId n = userId \<and> cn_workspaceId n = wsId"
    using that unfolding s' using upsert_read_all by blast
  show "counter_tracks_others s' n"
    if n: "n \<in> set (chatNotifications s')" "cn_userId n = userId \<and> cn_workspaceId n = wsId"
      and old: "\<forall>m \<in> set (chatMessages s). cm_workspaceId m = wsId \<and> cm_userId m \<noteq> userId \<longrightarrow> cm_createdAt m \<le> now"
  proof -
    from v[OF n] have z: "cn_unreadCount n = 0" "cn_lastReadAt n = now" by simp_all
    have "unread_from_others s' n = 0"
    proof (rule unread_from_others_zero)
      show "\<forall>m \<in> set (chatMessages s'). cm_workspaceId m = cn_workspaceId n \<and> cm_userId m \<noteq> cn_userId n
             \<longrightarrow> cm_createdAt m \<le> cn_lastReadAt n"
        using old n(2) z(2) unfolding s' by simp
    qed
    with z(1) show ?thesis by (simp add: counter_tracks_others_def)
  qed
qed

subsection \<open>The unread counter: recalculation after a deletion\<close>

lemma count_unread_cong: "chatMessages s' = chatMessages s \<Longrightarrow> count_unread w t s' = count_unread w t s"
  by (simp add: count_unread_def)

lemma update_unreadCount_messages [simp]: "chatMessages (update_unreadCount u w c s) = chatMessages s"
  by (simp add: update_unreadCount_def)

lemma update_unreadCount_keys [simp]:
  "map (\<lambda>n. (cn_userId n, cn_workspaceId n)) (chatNotifications (update_unreadCount u w c s))
     = map (\<lambda>n. (cn_userId n, cn_workspaceId n)) (chatNotifications s)"
  by (simp add: update_unreadCount_def comp_def if_distrib cong: if_cong)

lemma unique_key_find:
  assumes "distinct (map (\<lambda>n. (cn_userId n, cn_workspaceId n)) ns)"
    and "find (\<lambda>n. cn_userId n = u \<and> cn_workspaceId n = w) ns = Some n0"
    and "n \<in> set ns" "cn_userId n = u" "cn_workspaceId n = w"
  shows "n = n0"
proof -
  from find_SomeD[OF assms(2)] have "n0 \<in> set ns" "cn_userId n0 = u" "cn_workspaceId n0 = w" by simp_all
  moreover from assms(1) have "inj_on (\<lambda>n. (cn_userId n, cn_workspaceId n)) (set ns)"
    by (simp add: distinct_map)
  ultimately show ?thesis using assms(3,4,5) by (simp add: inj_on_def)
qed

lemma update_as_recalculated:
  assumes "notification_keys_unique s"
    and "find (\<lambda>n. cn_userId n = u \<and> cn_workspaceId n = w) (chatNotifications s) = Some n0"
  shows "chatNotifications (update_unreadCount u w (count_unread w (cn_lastReadAt n0) s) s)
           = map (recalculated {u} w s) (chatNotifications s)"
proof -
  have "\<And>n. n \<in> set (chatNotifications s) \<Longrightarrow>
          (if cn_userId n = u \<and> cn_workspaceId n = w then n\<lparr>cn_unreadCount := count_unread w (cn_lastReadAt n0) s\<rparr> else n)
          = recalculated {u} w s n"
  proof -
    fix n assume n: "n \<in> set (chatNotifications s)"
    show "(if cn_userId n = u \<and> cn_workspaceId n = w then n\<lparr>cn_unreadCount := count_unread w (cn_lastReadAt n0) s\<rparr> else n)
          = recalculated {u} w s n"
    proof (cases "cn_userId n = u \<and> cn_workspaceId n = w")
      case True
      with assms n have "n = n0" using unique_key_find[of "chatNotifications s" u w n0 n]
        by (simp add: notification_keys_unique_def)
      with True show ?thesis by (simp add: recalculated_def)
    next
      case False
      then show ?thesis by (auto simp: recalculated_def)
    qed
  qed
  then show ?thesis by (simp add: update_unreadCount_def)
qed

lemma recalculated_none:
  assumes "find (\<lambda>n. cn_userId n = u \<and> cn_workspaceId n = w) ns = None"
  shows "map (recalculated (insert u us) w s) ns = map (recalculated us w s) ns"
proof -
  have "\<And>n. n \<in> set ns \<Longrightarrow> recalculated (insert u us) w s n = recalculated us w s n"
    using find_NoneD[OF assms] by (auto simp: recalculated_def)
  then show ?thesis by simp
qed

lemma recalculated_compose:
  assumes "chatMessages s1 = chatMessages s"
  shows "recalculated us w s1 (recalculated {u} w s n) = recalculated (insert u us) w s n"
  using count_unread_cong[OF assms]
  by (cases "cn_workspaceId n = w"; cases "cn_userId n = u"; cases "cn_userId n \<in> us")
     (simp_all add: recalculated_def)

lemma recalculate_unread_loop_char:
  assumes "notification_keys_unique s"
  shows "\<exists>s'. recalculate_unread_loop us w s [] = (True, s', []) \<and>
              chatMessages s' = chatMessages s \<and>
              chatNotifications s' = map (recalculated (set us) w s) (chatNotifications s)"
  using assms
proof (induction us arbitrary: s)
  case Nil
  have "map (recalculated {} w s) (chatNotifications s) = chatNotifications s"
    by (simp add: recalculated_def map_idI)
  then show ?case by simp
next
  case (Cons u us)
  show ?case
  proof (cases "find (\<lambda>n. cn_userId n = u \<and> cn_workspaceId n = w) (chatNotifications s)")
    case None
    from Cons.IH[OF Cons.prems] obtain s' where
      "recalculate_unread_loop us w s [] = (True, s', [])" "chatMessages s' = chatMessages s"
      "chatNotifications s' = map (recalculated (set us) w s) (chatNotifications s)" by blast
    with None recalculated_none[OF None, of "set us" s] show ?thesis by simp
  next
    case (Some n0)
    let ?s1 = "update_unreadCount u w (count_unread w (cn_lastReadAt n0) s) s"
    have k1: "notification_keys_unique ?s1"
      using Cons.prems by (simp add: notification_keys_unique_def)
    from Cons.IH[OF k1] obtain s' where
      l: "recalculate_unread_loop us w ?s1 [] = (True, s', [])" and m: "chatMessages s' = chatMessages ?s1"
      and n: "chatNotifications s' = map (recalculated (set us) w ?s1) (chatNotifications ?s1)" by blast
    have "chatNotifications s' = map (recalculated (set us) w ?s1) (map (recalculated {u} w s) (chatNotifications s))"
      using n update_as_recalculated[OF Cons.prems Some] by simp
    also have "\<dots> = map (recalculated (insert u (set us)) w s) (chatNotifications s)"
      using recalculated_compose[of ?s1 s "set us" w u] by (simp add: comp_def)
    finally have "chatNotifications s' = map (recalculated (set (u # us)) w s) (chatNotifications s)" by simp
    with Some l m show ?thesis by simp
  qed
qed

lemma recalculated_exact:
  "cn_workspaceId n = w \<Longrightarrow> cn_userId n \<in> us \<Longrightarrow> chatMessages s' = chatMessages s \<Longrightarrow>
   counter_exact s' (recalculated us w s n)"
  using count_unread_cong[of s' s w "cn_lastReadAt n"]
  by (simp add: counter_exact_def recalculated_def)

lemma recalculated_keys [simp]:
  "cn_workspaceId (recalculated us w s n) = cn_workspaceId n"
  "cn_userId (recalculated us w s n) = cn_userId n"
  by (simp_all add: recalculated_def)

lemma recalculate_unread_loop_success:
  "recalculate_unread_loop us w s fs = (True, s', fs') \<Longrightarrow> recalculate_unread_loop us w s [] = (True, s', [])"
proof (induction us arbitrary: s fs)
  case Nil
  then show ?case by simp
next
  case (Cons u us)
  show ?case
  proof (cases "find (\<lambda>n. cn_userId n = u \<and> cn_workspaceId n = w) (chatNotifications s)")
    case None
    with Cons.prems have "recalculate_unread_loop us w s (tl fs) = (True, s', fs')"
      by (simp add: await_thrown split: if_splits)
    from Cons.IH[OF this] None show ?thesis by simp
  next
    case (Some n)
    with Cons.prems have "recalculate_unread_loop us w (update_unreadCount u w (count_unread w (cn_lastReadAt n) s) s)
                            (tl (tl (tl fs))) = (True, s', fs')"
      by (simp add: await_thrown split: if_splits)
    from Cons.IH[OF this] Some show ?thesis by simp
  qed
qed

lemma delete_result:
  assumes "delete_chat_message userId messageId s fs = ((200, b), s', fs')"
    and "notification_keys_unique s"
  shows "\<exists>message workspace.
           find (\<lambda>m. cm_id m = messageId) (chatMessages s) = Some message \<and>
           find (\<lambda>w. ws_id w = cm_workspaceId message) (workspaces s) = Some workspace \<and>
           chatMessages s' = filter (\<lambda>m. cm_id m \<noteq> messageId) (chatMessages s) \<and>
           chatNotifications s' =
             map (recalculated
                    (set (map wm_userId (filter (\<lambda>m. wm_workspaceId m = cm_workspaceId message \<and> wm_accepted m)
                                                (workspaceMembers s)) @ [ws_ownerId workspace]))
                    (cm_workspaceId message)
                    (s\<lparr>chatMessages := filter (\<lambda>m. cm_id m \<noteq> messageId) (chatMessages s)\<rparr>))
                 (chatNotifications s)"
proof -
  from assms(1) obtain message where fm: "find (\<lambda>m. cm_id m = messageId) (chatMessages s) = Some message"
    by (cases "find (\<lambda>m. cm_id m = messageId) (chatMessages s)")
       (auto simp: delete_chat_message_def await_thrown split: if_splits)
  from assms(1) fm have nt: "\<not> thrown fs 0"
    by (auto simp: delete_chat_message_def await_thrown split: if_splits)
  from assms(1) fm nt obtain workspace where fw: "find (\<lambda>w. ws_id w = cm_workspaceId message) (workspaces s) = Some workspace"
    by (cases "find (\<lambda>w. ws_id w = cm_workspaceId message) (workspaces s)")
       (auto simp: delete_chat_message_def await_thrown)
  let ?s2 = "s\<lparr>chatMessages := filter (\<lambda>m. cm_id m \<noteq> messageId) (chatMessages s)\<rparr>"
  let ?all = "map wm_userId (filter (\<lambda>m. wm_workspaceId m = cm_workspaceId message \<and> wm_accepted m) (workspaceMembers s)) @ [ws_ownerId workspace]"
  have k: "notification_keys_unique ?s2" using assms(2) by (simp add: notification_keys_unique_def)
  from recalculate_unread_loop_char[OF k, of ?all "cm_workspaceId message"] obtain s4 where
    loop: "recalculate_unread_loop ?all (cm_workspaceId message) ?s2 [] = (True, s4, [])"
    and m4: "chatMessages s4 = chatMessages ?s2"
    and n4: "chatNotifications s4 = map (recalculated (set ?all) (cm_workspaceId message) ?s2) (chatNotifications ?s2)"
    by blast
  from find_SomeD[OF fm] have mem: "messageId \<in> set (map cm_id (chatMessages s))" by force
  from assms(1) fm nt fw mem obtain fs3 where "recalculate_unread_loop ?all (cm_workspaceId message) ?s2 fs3 = (True, s', fs')"
    by (auto simp: delete_chat_message_def Let_def chatMessage_delete_def await_thrown
             split: if_splits prod.splits bool.splits)
  from recalculate_unread_loop_success[OF this] loop have "s' = s4" by simp
  with m4 n4 fm fw show ?thesis by simp
qed

lemma delete_recalculates:
  assumes "delete_chat_message userId messageId s fs = ((200, b), s', fs')"
    and "notification_keys_unique s"
    and "find (\<lambda>m. cm_id m = messageId) (chatMessages s) = Some message"
    and "n \<in> set (chatNotifications s')"
    and "cn_workspaceId n = cm_workspaceId message"
    and "accepted_member s (cn_userId n) (cm_workspaceId message) \<or>
         workspace_owner s (cm_workspaceId message) = Some (cn_userId n)"
  shows "counter_exact s' n"
proof -
  from delete_result[OF assms(1,2)] assms(3) obtain workspace where
    fw: "find (\<lambda>w. ws_id w = cm_workspaceId message) (workspaces s) = Some workspace"
    and ms: "chatMessages s' = filter (\<lambda>m. cm_id m \<noteq> messageId) (chatMessages s)"
    and ns: "chatNotifications s' =
             map (recalculated
                    (set (map wm_userId (filter (\<lambda>m. wm_workspaceId m = cm_workspaceId message \<and> wm_accepted m)
                                                (workspaceMembers s)) @ [ws_ownerId workspace]))
                    (cm_workspaceId message)
                    (s\<lparr>chatMessages := filter (\<lambda>m. cm_id m \<noteq> messageId) (chatMessages s)\<rparr>))
                 (chatNotifications s)"
    by auto
  let ?us = "set (map wm_userId (filter (\<lambda>m. wm_workspaceId m = cm_workspaceId message \<and> wm_accepted m)
                                                (workspaceMembers s)) @ [ws_ownerId workspace])"
  let ?s2 = "s\<lparr>chatMessages := filter (\<lambda>m. cm_id m \<noteq> messageId) (chatMessages s)\<rparr>"
  from assms(4) ns obtain n0 where n0: "n = recalculated ?us (cm_workspaceId message) ?s2 n0"
    by auto
  have u: "cn_userId n \<in> ?us"
  proof (cases "accepted_member s (cn_userId n) (cm_workspaceId message)")
    case True
    then obtain m where "m \<in> set (workspaceMembers s)" "wm_workspaceId m = cm_workspaceId message"
        "wm_userId m = cn_userId n" "wm_accepted m"
      by (auto simp: accepted_member_def)
    then have "cn_userId n \<in> wm_userId ` {x \<in> set (workspaceMembers s).
             wm_workspaceId x = cm_workspaceId message \<and> wm_accepted x}"
      by (intro image_eqI[of _ _ m]) simp_all
    then show ?thesis by simp
  next
    case False
    with assms(6) fw show ?thesis by (simp add: workspace_owner_def)
  qed
  have "counter_exact s' (recalculated ?us (cm_workspaceId message) ?s2 n0)"
  proof (rule recalculated_exact)
    show "cn_workspaceId n0 = cm_workspaceId message" using assms(5) n0 by simp
    show "cn_userId n0 \<in> ?us" using u n0 by simp
    show "chatMessages s' = chatMessages ?s2" using ms by simp
  qed
  with n0 show ?thesis by simp
qed

lemma counter_exact_tracks:
  assumes "counter_exact s n"
    and "\<forall>m \<in> set (chatMessages s). cm_workspaceId m = cn_workspaceId n \<and> cn_lastReadAt n < cm_createdAt m
           \<longrightarrow> cm_userId m \<noteq> cn_userId n"
  shows "counter_tracks_others s n"
proof -
  have "filter (\<lambda>m. cm_workspaceId m = cn_workspaceId n \<and> cm_createdAt m > cn_lastReadAt n \<and>
                     cm_userId m \<noteq> cn_userId n) (chatMessages s)
        = filter (\<lambda>m. cm_workspaceId m = cn_workspaceId n \<and> cm_createdAt m > cn_lastReadAt n) (chatMessages s)"
    using assms(2) by (intro filter_cong) auto
  with assms(1) show ?thesis
    by (simp add: counter_exact_def counter_tracks_others_def unread_from_others_def count_unread_def)
qed



subsection \<open>Login and the refresh token\<close>

lemma replace_refresh_token_thrown:
  "fst (replace_refresh_token userId r now s fs) =
     (if thrown fs 0 then s
      else if thrown fs 1 then refreshToken_deleteMany userId s
      else (case refreshToken_create r userId (now + 7 * 24 * 60 * 60 * 1000) (refreshToken_deleteMany userId s) of
              None \<Rightarrow> refreshToken_deleteMany userId s
            | Some s2 \<Rightarrow> s2))"
  by (simp add: replace_refresh_token_def await_thrown split: option.splits)

lemma login_result:
  assumes "post_auth_login env email password now s fs = ((200, LoginOk user accessToken rt), s', fs')"
  shows "find (\<lambda>u. u_email u = the email) (users s) = Some user \<and>
         (\<exists>refreshToken s2.
            generateTokens env (u_id user) (u_email user) (u_role user) = Some (accessToken, refreshToken) \<and>
            refreshTokens s2 = refreshTokens s \<and> set (map u_id (users s2)) = set (map u_id (users s)) \<and>
            s' = fst (replace_refresh_token (u_id user) refreshToken now s2 (tl (tl fs))))"
proof -
  from assms have t: "truthy email \<and> truthy password"
    by (auto simp: post_auth_login_def split: if_splits)
  have nt: "\<not> thrown fs 0"
  proof
    assume "thrown fs 0"
    with assms t show False by (simp add: post_auth_login_def await_thrown)
  qed
  from assms t nt obtain u where fu: "find (\<lambda>u. u_email u = the email) (users s) = Some u"
    by (cases "find (\<lambda>u. u_email u = the email) (users s)") (auto simp: post_auth_login_def await_thrown)
  from find_SomeD[OF fu] have mem: "u_id u \<in> set (map u_id (users s))" by force
  from assms t nt fu have ok: "u_isActive u" "bcrypt_compare env (the password) (u_password u)"
    by (auto simp: post_auth_login_def await_thrown split: if_splits)
  let ?s1 = "s\<lparr>users := map (\<lambda>x. if u_id x = u_id u then x\<lparr>u_lastLogin := Some now\<rparr> else x) (users s)\<rparr>"
  let ?s2 = "if thrown fs 1 then s else ?s1"
  have upd: "user_update_lastLogin (u_id u) now s = Some ?s1"
    using mem by (simp add: user_update_lastLogin_def)
  have ids: "map u_id (users ?s1) = map u_id (users s)"
    by (simp add: comp_def if_distrib cong: if_cong)
  from assms t nt fu ok upd obtain a r where
    g: "generateTokens env (u_id u) (u_email u) (u_role u) = Some (a, r)"
    and sec: "truthy (JWT_SECRET env)" "truthy (REFRESH_TOKEN_SECRET env)"
    by (cases "generateTokens env (u_id u) (u_email u) (u_role u)")
       (auto simp: post_auth_login_def await_thrown split: if_splits)
  obtain s4 fs4 where rr: "replace_refresh_token (u_id u) r now ?s2 (tl (tl fs)) = (s4, fs4)" by fastforce
  from assms t nt fu ok upd g sec rr have "user = u \<and> accessToken = a \<and> s' = s4"
    by (cases "thrown fs 1") (auto simp: post_auth_login_def await_thrown)
  moreover have "refreshTokens ?s2 = refreshTokens s" by simp
  moreover have "set (map u_id (users ?s2)) = set (map u_id (users s))" using ids by (cases "thrown fs 1") simp_all
  ultimately show ?thesis using fu g rr by (intro conjI exI[of _ r] exI[of _ ?s2]) simp_all
qed

lemma login_succeeds:
  assumes "truthy email" "truthy password" "\<not> thrown fs 0"
    and "find (\<lambda>u. u_email u = the email) (users s) = Some user"
    and "u_isActive user" "bcrypt_compare env (the password) (u_password user)"
    and "truthy (JWT_SECRET env)" "truthy (REFRESH_TOKEN_SECRET env)"
    and "generateTokens env (u_id user) (u_email user) (u_role user) = Some (accessToken, r)"
  shows "fst (post_auth_login env email password now s fs) =
           (200, LoginOk user accessToken (if truthy r then r else None))"
  using assms
  by (simp add: post_auth_login_def await_thrown split: prod.splits option.splits)


lemma login_tokens:
  assumes "post_auth_login env email password now s fs = ((200, LoginOk user accessToken rt), s', fs')"
    and "generateTokens env (u_id user) (u_email user) (u_role user) = Some (accessToken, r)"
  shows "thrown fs 2 \<Longrightarrow> refreshTokens s' = refreshTokens s"
    and "\<not> thrown fs 2 \<Longrightarrow>
           thrown fs 3 \<or> r = None \<or>
           (\<exists>t. r = Some t \<and> t \<in> set (map rt_token (filter (\<lambda>x. rt_userId x \<noteq> u_id user) (refreshTokens s)))) \<Longrightarrow>
           refreshTokens s' = filter (\<lambda>x. rt_userId x \<noteq> u_id user) (refreshTokens s)"
    and "\<not> thrown fs 2 \<Longrightarrow> \<not> thrown fs 3 \<Longrightarrow> r = Some t \<Longrightarrow>
           t \<notin> set (map rt_token (filter (\<lambda>x. rt_userId x \<noteq> u_id user) (refreshTokens s))) \<Longrightarrow>
           refreshTokens s' = filter (\<lambda>x. rt_userId x \<noteq> u_id user) (refreshTokens s) @
             [\<lparr>rt_token = t, rt_userId = u_id user, rt_expiresAt = now + 7 * 24 * 60 * 60 * 1000\<rparr>]"
proof -
  from login_result[OF assms(1)] assms(2) obtain s2 where
    fu: "find (\<lambda>u. u_email u = the email) (users s) = Some user"
    and rt2: "refreshTokens s2 = refreshTokens s"
    and ids: "set (map u_id (users s2)) = set (map u_id (users s))"
    and s': "s' = fst (replace_refresh_token (u_id user) r now s2 (tl (tl fs)))"
    by auto
  from find_SomeD[OF fu] have "u_id user \<in> set (map u_id (users s))" by force
  with ids have mem: "u_id user \<in> set (map u_id (users s2))" by simp
  have th: "thrown (tl (tl fs)) 0 = thrown fs 2" "thrown (tl (tl fs)) 1 = thrown fs 3"
    by (simp_all add: numeral_2_eq_2 numeral_3_eq_3)
  note r = replace_refresh_token_thrown[of "u_id user" r now s2 "tl (tl fs)", unfolded th, folded s']
  show "refreshTokens s' = refreshTokens s" if "thrown fs 2"
    using r that rt2 by simp
  show "refreshTokens s' = filter (\<lambda>x. rt_userId x \<noteq> u_id user) (refreshTokens s)"
    if "\<not> thrown fs 2" "thrown fs 3 \<or> r = None \<or>
           (\<exists>t. r = Some t \<and> t \<in> set (map rt_token (filter (\<lambda>x. rt_userId x \<noteq> u_id user) (refreshTokens s))))"
  proof (cases "thrown fs 3")
    case True
    with r that(1) rt2 show ?thesis by (simp add: refreshToken_deleteMany_def)
  next
    case False
    with that(2) have "refreshToken_create r (u_id user) (now + 7 * 24 * 60 * 60 * 1000)
                         (refreshToken_deleteMany (u_id user) s2) = None"
      using rt2 by (auto simp: refreshToken_create_def refreshToken_deleteMany_def)
    with r that(1) False rt2 show ?thesis by (simp add: refreshToken_deleteMany_def)
  qed
  show "refreshTokens s' = filter (\<lambda>x. rt_userId x \<noteq> u_id user) (refreshTokens s) @
             [\<lparr>rt_token = t, rt_userId = u_id user, rt_expiresAt = now + 7 * 24 * 60 * 60 * 1000\<rparr>]"
    if "\<not> thrown fs 2" "\<not> thrown fs 3" "r = Some t"
       "t \<notin> set (map rt_token (filter (\<lambda>x. rt_userId x \<noteq> u_id user) (refreshTokens s)))"
  proof -
    have "refreshToken_create r (u_id user) (now + 7 * 24 * 60 * 60 * 1000) (refreshToken_deleteMany (u_id user) s2)
            = Some ((refreshToken_deleteMany (u_id user) s2)\<lparr>refreshTokens :=
                 refreshTokens (refreshToken_deleteMany (u_id user) s2) @
                 [\<lparr>rt_token = t, rt_userId = u_id user, rt_expiresAt = now + 7 * 24 * 60 * 60 * 1000\<rparr>]\<rparr>)"
      using that(3,4) rt2 mem by (simp add: refreshToken_create_def refreshToken_deleteMany_def)
    with r that(1,2) rt2 show ?thesis by (simp add: refreshToken_deleteMany_def)
  qed
qed

lemma tokens_of_filter_self: "filter (\<lambda>r. rt_userId r = u) (filter (\<lambda>x. rt_userId x \<noteq> u) rs) = []"
  by (simp add: filter_empty_conv)

lemma tokens_of_filter_other:
  "other \<noteq> u \<Longrightarrow> filter (\<lambda>r. rt_userId r = other) (filter (\<lambda>x. rt_userId x \<noteq> u) rs) = filter (\<lambda>r. rt_userId r = other) rs"
  by (auto intro: filter_cong)

text \<open>
  C10, as stated, fails: the handler catches a failure of the statements that replace the
  refresh token and answers 200 all the same. Here the insert of the new token is
  rejected after the old tokens were deleted: the login succeeds and the user holds no
  refresh token.
\<close>

theorem login_refresh_token_counterexample:
  "fst (post_auth_login demo_login_env (Some ''u1@x.io'') (Some ''1'') 5000 demo_store_tokens
          [False, False, False, True])
     = (200, LoginOk \<lparr>u_id = ''u1'', u_email = ''u1@x.io'', u_password = ''h1'', u_nickname = ''one'',
                       u_avatar = None, u_role = ''member'', u_isActive = True, u_lastLogin = None\<rparr>
               ''access-u1'' (Some ''refresh-u1'')) \<and>
   tokens_of (fst (snd (post_auth_login demo_login_env (Some ''u1@x.io'') (Some ''1'') 5000 demo_store_tokens
          [False, False, False, True]))) ''u1'' = []"
  by (simp add: post_auth_login_def demo_login_env_def demo_store_tokens_def demo_store_def truthy_def
        await_def user_update_lastLogin_def replace_refresh_token_def refreshToken_deleteMany_def
        refreshToken_create_def tokens_of_def)

text \<open>
  C10, amended. In a login answered with 200 the statements issued are, in order, the
  look-up of the user (0), the update of \<open>lastLogin\<close> (1, whose rejection is swallowed),
  \<open>refreshToken.deleteMany\<close> (2) and \<open>refreshToken.create\<close> (3). Whatever happens to
  statement 1: when neither statement 2 nor statement 3 is rejected, \<open>generateTokens\<close>
  returned a refresh token and that token is not stored for another user, the user holds
  exactly one refresh token afterwards, the new one, expiring seven days after the login,
  and the tokens of the other users are as before; when statement 2 is rejected the
  stored tokens are unchanged; when statement 2 is answered and statement 3 is rejected
  or refused (no token, or a token stored for another user) the user holds no refresh
  token and the tokens of the other users are as before. And the answer is 200 whenever
  the look-up is answered with an active user whose password matches, both secrets are
  set and \<open>generateTokens\<close> returns, whatever happens to the later statements.
\<close>

theorem login_replaces_refresh_token:
  "(post_auth_login env email password now s fs = ((200, LoginOk user accessToken rt), s', fs') \<and>
    generateTokens env (u_id user) (u_email user) (u_role user) = Some (accessToken, r) \<longrightarrow>
      (\<not> thrown fs 2 \<and> \<not> thrown fs 3 \<and> r = Some t \<and>
       t \<notin> set (map rt_token (filter (\<lambda>x. rt_userId x \<noteq> u_id user) (refreshTokens s))) \<longrightarrow>
         tokens_of s' (u_id user) =
           [\<lparr>rt_token = t, rt_userId = u_id user, rt_expiresAt = now + 7 * 24 * 60 * 60 * 1000\<rparr>] \<and>
         (\<forall>other. other \<noteq> u_id user \<longrightarrow> tokens_of s' other = tokens_of s other)) \<and>
      (thrown fs 2 \<longrightarrow> refreshTokens s' = refreshTokens s) \<and>
      (\<not> thrown fs 2 \<and>
       (thrown fs 3 \<or> r = None \<or>
        (\<exists>t. r = Some t \<and> t \<in> set (map rt_token (filter (\<lambda>x. rt_userId x \<noteq> u_id user) (refreshTokens s))))) \<longrightarrow>
         tokens_of s' (u_id user) = [] \<and>
         (\<forall>other. other \<noteq> u_id user \<longrightarrow> tokens_of s' other = tokens_of s other))) \<and>
   (truthy email \<and> truthy password \<and> \<not> thrown fs 0 \<and>
    find (\<lambda>u. u_email u = the email) (users s) = Some user \<and>
    u_isActive user \<and> bcrypt_compare env (the password) (u_password user) \<and>
    truthy (JWT_SECRET env) \<and> truthy (REFRESH_TOKEN_SECRET env) \<and>
    generateTokens env (u_id user) (u_email user) (u_role user) = Some (accessToken, r) \<longrightarrow>
      fst (post_auth_login env email password now s fs) =
        (200, LoginOk user accessToken (if truthy r then r else None)))"
proof (intro conjI impI)
  assume a: "post_auth_login env email password now s fs = ((200, LoginOk user accessToken rt), s', fs') \<and>
    generateTokens env (u_id user) (u_email user) (u_role user) = Some (accessToken, r)"
  note lt = login_tokens[of env email password now s fs user accessToken rt s' fs' r]
  {
    assume b: "\<not> thrown fs 2 \<and> \<not> thrown fs 3 \<and> r = Some t \<and>
       t \<notin> set (map rt_token (filter (\<lambda>x. rt_userId x \<noteq> u_id user) (refreshTokens s)))"
    with a lt(3)[of t] have e: "refreshTokens s' = filter (\<lambda>x. rt_userId x \<noteq> u_id user) (refreshTokens s) @
             [\<lparr>rt_token = t, rt_userId = u_id user, rt_expiresAt = now + 7 * 24 * 60 * 60 * 1000\<rparr>]" by blast
    show "tokens_of s' (u_id user) =
           [\<lparr>rt_token = t, rt_userId = u_id user, rt_expiresAt = now + 7 * 24 * 60 * 60 * 1000\<rparr>]"
      unfolding tokens_of_def e by (simp add: tokens_of_filter_self)
    show "\<forall>other. other \<noteq> u_id user \<longrightarrow> tokens_of s' other = tokens_of s other"
      unfolding tokens_of_def e by (auto intro: filter_cong)
  }
  {
    assume "thrown fs 2"
    with a lt(1) show "refreshTokens s' = refreshTokens s" by blast
  }
  {
    assume b: "\<not> thrown fs 2 \<and>
       (thrown fs 3 \<or> r = None \<or>
        (\<exists>t. r = Some t \<and> t \<in> set (map rt_token (filter (\<lambda>x. rt_userId x \<noteq> u_id user) (refreshTokens s)))))"
    with a lt(2) have e: "refreshTokens s' = filter (\<lambda>x. rt_userId x \<noteq> u_id user) (refreshTokens s)" by blast
    show "tokens_of s' (u_id user) = []"
      unfolding tokens_of_def e by (simp add: tokens_of_filter_self)
    show "\<forall>other. other \<noteq> u_id user \<longrightarrow> tokens_of s' other = tokens_of s other"
      unfolding tokens_of_def e by (auto intro: filter_cong)
  }
next
  assume "truthy email \<and> truthy password \<and> \<not> thrown fs 0 \<and>
    find (\<lambda>u. u_email u = the email) (users s) = Some user \<and>
    u_isActive user \<and> bcrypt_compare env (the password) (u_password user) \<and>
    truthy (JWT_SECRET env) \<and> truthy (REFRESH_TOKEN_SECRET env) \<and>
    generateTokens env (u_id user) (u_email user) (u_role user) = Some (accessToken, r)"
  then show "fst (post_auth_login env email password now s fs) =
        (200, LoginOk user accessToken (if truthy r then r else None))"
    using login_succeeds[of email password fs s user env accessToken r now] by blast
qed


theorem login_replaces_refresh_token_witness:
  "tokens_of (fst (snd (post_auth_login demo_login_env (Some ''u1@x.io'') (Some ''1'') 5000 demo_store_tokens
       [False, True]))) ''u1''
     = [\<lparr>rt_token = ''refresh-u1'', rt_userId = ''u1'', rt_expiresAt = 604805000\<rparr>] \<and>
   tokens_of (fst (snd (post_auth_login demo_login_env (Some ''u1@x.io'') (Some ''1'') 5000 demo_store_tokens
       [False, True]))) ''u2''
     = [\<lparr>rt_token = ''old-2'', rt_userId = ''u2'', rt_expiresAt = 9000\<rparr>] \<and>
   refreshTokens (fst (snd (post_auth_login demo_login_env (Some ''u1@x.io'') (Some ''1'') 5000 demo_store_tokens
       [False, False, True])))
     = refreshTokens demo_store_tokens"
proof -
  let ?r = "post_auth_login demo_login_env (Some ''u1@x.io'') (Some ''1'') 5000 demo_store_tokens [False, True]"
  let ?q = "post_auth_login demo_login_env (Some ''u1@x.io'') (Some ''1'') 5000 demo_store_tokens [False, False, True]"
  let ?u = "\<lparr>u_id = ''u1'', u_email = ''u1@x.io'', u_password = ''h1'', u_nickname = ''one'',
                       u_avatar = None, u_role = ''member'', u_isActive = True, u_lastLogin = None\<rparr>"
  have "fst ?r = (200, LoginOk ?u ''access-u1'' (Some ''refresh-u1''))"
    by (simp add: post_auth_login_def demo_login_env_def demo_store_tokens_def demo_store_def truthy_def
        await_def user_update_lastLogin_def replace_refresh_token_def refreshToken_deleteMany_def
        refreshToken_create_def)
  then have eq: "?r = ((200, LoginOk ?u ''access-u1'' (Some ''refresh-u1'')), fst (snd ?r), snd (snd ?r))"
    by (simp add: prod_eq_iff)
  have "fst ?q = (200, LoginOk ?u ''access-u1'' (Some ''refresh-u1''))"
    by (simp add: post_auth_login_def demo_login_env_def demo_store_tokens_def demo_store_def truthy_def
        await_def user_update_lastLogin_def replace_refresh_token_def refreshToken_deleteMany_def
        refreshToken_create_def)
  then have eq': "?q = ((200, LoginOk ?u ''access-u1'' (Some ''refresh-u1'')), fst (snd ?q), snd (snd ?q))"
    by (simp add: prod_eq_iff)
  have g: "generateTokens demo_login_env (u_id ?u) (u_email ?u) (u_role ?u) = Some (''access-u1'', Some ''refresh-u1'')"
    by (simp add: demo_login_env_def)
  have f: "''refresh-u1'' \<notin> set (map rt_token (filter (\<lambda>r. rt_userId r \<noteq> u_id ?u) (refreshTokens demo_store_tokens)))"
    by (simp add: demo_store_tokens_def)
  have th: "\<not> thrown [False, True] 2" "\<not> thrown [False, True] 3" "thrown [False, False, True] 2"
    by (simp_all add: thrown_def)
  from login_replaces_refresh_token[where env = demo_login_env and email = "Some ''u1@x.io''"
        and password = "Some ''1''" and now = 5000 and s = demo_store_tokens and user = ?u
        and accessToken = "''access-u1''" and rt = "Some ''refresh-u1''" and s' = "fst (snd ?r)"
        and fs = "[False, True]" and fs' = "snd (snd ?r)" and r = "Some ''refresh-u1''" and t = "''refresh-u1''",
        THEN conjunct1] eq g f th(1,2)
  have "tokens_of (fst (snd ?r)) (u_id ?u) =
       [\<lparr>rt_token = ''refresh-u1'', rt_userId = u_id ?u, rt_expiresAt = 5000 + 7 * 24 * 60 * 60 * 1000\<rparr>] \<and>
     (\<forall>other. other \<noteq> u_id ?u \<longrightarrow> tokens_of (fst (snd ?r)) other = tokens_of demo_store_tokens other)"
    by blast
  then have one: "tokens_of (fst (snd ?r)) ''u1''
       = [\<lparr>rt_token = ''refresh-u1'', rt_userId = ''u1'', rt_expiresAt = 604805000\<rparr>]"
    and two: "tokens_of (fst (snd ?r)) ''u2'' = [\<lparr>rt_token = ''old-2'', rt_userId = ''u2'', rt_expiresAt = 9000\<rparr>]"
    by (simp_all add: tokens_of_def demo_store_tokens_def)
  from login_replaces_refresh_token[where env = demo_login_env and email = "Some ''u1@x.io''"
        and password = "Some ''1''" and now = 5000 and s = demo_store_tokens and user = ?u
        and accessToken = "''access-u1''" and rt = "Some ''refresh-u1''" and s' = "fst (snd ?q)"
        and fs = "[False, False, True]" and fs' = "snd (snd ?q)" and r = "Some ''refresh-u1''",
        THEN conjunct1] eq' g th(3)
  have "refreshTokens (fst (snd ?q)) = refreshTokens demo_store_tokens"
    by blast
  with one two show ?thesis by blast
qed


subsection \<open>Cascading deletes\<close>

lemma referencing_set_null:
  "referencing fks action t i (set_null fks t' i' r) \<Longrightarrow> referencing fks action t i r"
  by (auto simp: referencing_def set_null_def)

lemma set_null_key [simp]:
  "row_table (set_null fks t i r) = row_table r" "row_id (set_null fks t i r) = row_id r"
  by (simp_all add: set_null_def)

lemma unreferenced_step:
  assumes "unreferenced fks t i db"
  shows "unreferenced fks t i (map (set_null fks t' i') (filter P db))"
  unfolding unreferenced_def
proof
  fix r assume "r \<in> set (map (set_null fks t' i') (filter P db))"
  then obtain r0 where r0: "r0 \<in> set db" "r = set_null fks t' i' r0" by auto
  with assms have "\<not> (row_table r0 = t \<and> row_id r0 = i)" "\<not> referencing fks Cascade t i r0"
    by (simp_all add: unreferenced_def)
  with r0(2) show "\<not> (row_table r = t \<and> row_id r = i) \<and> \<not> referencing fks Cascade t i r"
    using referencing_set_null[of fks Cascade t i t' i' r0] by auto
qed

lemma sql_delete_keeps_unreferenced:
  "unreferenced fks t i db \<Longrightarrow> unreferenced fks t i (sql_delete fks pending db)"
proof (induction fks pending db rule: sql_delete.induct)
  case (1 fks db)
  then show ?case by simp
next
  case (2 fks t' i' pending db)
  from unreferenced_step[OF "2.prems"] show ?case
    using "2.IH" by simp
qed

lemma sql_delete_unreferenced: "unreferenced fks t i (sql_delete fks [(t, i)] db)"
proof -
  have "unreferenced fks t i
          (map (set_null fks t i)
             (filter (\<lambda>r. \<not> (row_table r = t \<and> row_id r = i) \<and> \<not> referencing fks Cascade t i r) db))"
    unfolding unreferenced_def
  proof
    fix r assume "r \<in> set (map (set_null fks t i)
             (filter (\<lambda>r. \<not> (row_table r = t \<and> row_id r = i) \<and> \<not> referencing fks Cascade t i r) db))"
    then obtain r0 where r0: "r0 \<in> set db" "\<not> (row_table r0 = t \<and> row_id r0 = i)"
        "\<not> referencing fks Cascade t i r0" "r = set_null fks t i r0" by auto
    then show "\<not> (row_table r = t \<and> row_id r = i) \<and> \<not> referencing fks Cascade t i r"
      using referencing_set_null[of fks Cascade t i t i r0] by auto
  qed
  then show ?thesis using sql_delete_keeps_unreferenced by simp
qed

lemma unreferenced_column:
  assumes "\<not> referencing fks Cascade t i r"
    and "\<lparr>fk_table = row_table r, fk_column = c, fk_references = t, fk_on_delete = Cascade\<rparr> \<in> set fks"
  shows "(c, i) \<notin> set (row_refs r)"
proof
  assume "(c, i) \<in> set (row_refs r)"
  with assms(2) have "referencing fks Cascade t i r"
    unfolding referencing_def
    by (intro bexI[of _ "\<lparr>fk_table = row_table r, fk_column = c, fk_references = t, fk_on_delete = Cascade\<rparr>"]) simp_all
  with assms(1) show False by simp
qed

lemma all_cascade: "\<forall>fk \<in> set foreign_keys. fk_on_delete fk = Cascade"
  by (simp add: foreign_keys_def)

lemma workspace_children:
  assumes "\<not> referencing foreign_keys Cascade ''workspaces'' w r"
    and "row_table r \<in> {''workspace_members'', ''group_tasks'', ''chat_messages''}"
  shows "(''workspaceId'', w) \<notin> set (row_refs r)"
proof (rule unreferenced_column[OF assms(1)])
  from assms(2) consider "row_table r = ''workspace_members''" | "row_table r = ''group_tasks''"
    | "row_table r = ''chat_messages''" by blast
  then show "\<lparr>fk_table = row_table r, fk_column = ''workspaceId'', fk_references = ''workspaces'',
               fk_on_delete = Cascade\<rparr> \<in> set foreign_keys"
    by cases (simp_all add: foreign_keys_def)
qed

lemma user_children:
  assumes "\<not> referencing foreign_keys Cascade ''users'' u r"
    and "row_table r \<in> {''friends'', ''personal_todos'', ''refresh_tokens'', ''chat_messages''}"
  shows "(''userId'', u) \<notin> set (row_refs r)"
proof (rule unreferenced_column[OF assms(1)])
  from assms(2) consider "row_table r = ''friends''" | "row_table r = ''personal_todos''"
    | "row_table r = ''refresh_tokens''" | "row_table r = ''chat_messages''" by blast
  then show "\<lparr>fk_table = row_table r, fk_column = ''userId'', fk_references = ''users'',
               fk_on_delete = Cascade\<rparr> \<in> set foreign_keys"
    by cases (simp_all add: foreign_keys_def)
qed

lemma user_friends:
  assumes "\<not> referencing foreign_keys Cascade ''users'' u r" and "row_table r = ''friends''"
  shows "(''friendId'', u) \<notin> set (row_refs r)"
proof (rule unreferenced_column[OF assms(1)])
  show "\<lparr>fk_table = row_table r, fk_column = ''friendId'', fk_references = ''users'',
               fk_on_delete = Cascade\<rparr> \<in> set foreign_keys"
    using assms(2) by (simp add: foreign_keys_def)
qed

lemma demo_delete_workspace:
  "sql_delete foreign_keys [(''workspaces'', ''w1'')] demo_rows =
     [\<lparr>row_table = ''users'', row_id = ''u1'', row_refs = []\<rparr>,
      \<lparr>row_table = ''users'', row_id = ''u2'', row_refs = []\<rparr>,
      \<lparr>row_table = ''workspaces'', row_id = ''w2'', row_refs = [(''ownerId'', ''u2'')]\<rparr>,
      \<lparr>row_table = ''group_tasks'', row_id = ''t2'', row_refs = [(''workspaceId'', ''w2'')]\<rparr>,
      \<lparr>row_table = ''friends'', row_id = ''f1'', row_refs = [(''userId'', ''u2''), (''friendId'', ''u1'')]\<rparr>,
      \<lparr>row_table = ''personal_todos'', row_id = ''p1'', row_refs = [(''userId'', ''u2'')]\<rparr>,
      \<lparr>row_table = ''refresh_tokens'', row_id = ''r1'', row_refs = [(''userId'', ''u1'')]\<rparr>]"
  by (simp add: demo_rows_def foreign_keys_def referencing_def set_null_def)

lemma demo_delete_user:
  "sql_delete foreign_keys [(''users'', ''u1'')] demo_rows =
     [\<lparr>row_table = ''users'', row_id = ''u2'', row_refs = []\<rparr>,
      \<lparr>row_table = ''workspaces'', row_id = ''w2'', row_refs = [(''ownerId'', ''u2'')]\<rparr>,
      \<lparr>row_table = ''group_tasks'', row_id = ''t2'', row_refs = [(''workspaceId'', ''w2'')]\<rparr>,
      \<lparr>row_table = ''personal_todos'', row_id = ''p1'', row_refs = [(''userId'', ''u2'')]\<rparr>]"
  by (simp add: demo_rows_def foreign_keys_def referencing_def set_null_def)

text \<open>
  C7. Every foreign key of the schema is declared \<open>ON DELETE CASCADE\<close>. After the
  deletion of a workspace, the workspace is gone and no row of \<open>workspace_members\<close>,
  \<open>group_tasks\<close> or \<open>chat_messages\<close> has it as \<open>workspaceId\<close>; after the deletion of a
  user, the user is gone and no row of \<open>friends\<close>, \<open>personal_todos\<close>,
  \<open>refresh_tokens\<close> or \<open>chat_messages\<close> has it as \<open>userId\<close>, and no row of
  \<open>friends\<close> has it as \<open>friendId\<close>.
\<close>

theorem cascade_delete:
  "(\<forall>fk \<in> set foreign_keys. fk_on_delete fk = Cascade) \<and>
   (prisma_delete foreign_keys ''workspaces'' w db = Some db' \<longrightarrow>
      (\<forall>r \<in> set db'.
         \<not> (row_table r = ''workspaces'' \<and> row_id r = w) \<and>
         (row_table r \<in> {''workspace_members'', ''group_tasks'', ''chat_messages''} \<longrightarrow>
            (''workspaceId'', w) \<notin> set (row_refs r)))) \<and>
   (prisma_delete foreign_keys ''users'' u db = Some db' \<longrightarrow>
      (\<forall>r \<in> set db'.
         \<not> (row_table r = ''users'' \<and> row_id r = u) \<and>
         (row_table r \<in> {''friends'', ''personal_todos'', ''refresh_tokens'', ''chat_messages''} \<longrightarrow>
            (''userId'', u) \<notin> set (row_refs r)) \<and>
         (row_table r = ''friends'' \<longrightarrow> (''friendId'', u) \<notin> set (row_refs r))))"
proof (intro conjI ballI impI)
  fix fk assume "fk \<in> set foreign_keys"
  then show "fk_on_delete fk = Cascade" using all_cascade by blast
next
  fix r assume d: "prisma_delete foreign_keys ''workspaces'' w db = Some db'" and "r \<in> set db'"
  then have r: "r \<in> set (sql_delete foreign_keys [(''workspaces'', w)] db)"
    by (simp add: prisma_delete_def split: if_splits)
  with sql_delete_unreferenced[of foreign_keys "''workspaces''" w db, unfolded unreferenced_def]
  have k: "\<not> (row_table r = ''workspaces'' \<and> row_id r = w)"
    and n: "\<not> referencing foreign_keys Cascade ''workspaces'' w r"
    by blast+
  show "\<not> (row_table r = ''workspaces'' \<and> row_id r = w)" by (rule k)
  show "(''workspaceId'', w) \<notin> set (row_refs r)"
    if "row_table r \<in> {''workspace_members'', ''group_tasks'', ''chat_messages''}"
    using n that by (rule workspace_children)
next
  fix r assume d: "prisma_delete foreign_keys ''users'' u db = Some db'" and "r \<in> set db'"
  then have r: "r \<in> set (sql_delete foreign_keys [(''users'', u)] db)"
    by (simp add: prisma_delete_def split: if_splits)
  with sql_delete_unreferenced[of foreign_keys "''users''" u db, unfolded unreferenced_def]
  have k: "\<not> (row_table r = ''users'' \<and> row_id r = u)"
    and n: "\<not> referencing foreign_keys Cascade ''users'' u r"
    by blast+
  show "\<not> (row_table r = ''users'' \<and> row_id r = u)" by (rule k)
  show "(''userId'', u) \<notin> set (row_refs r)"
    if "row_table r \<in> {''friends'', ''personal_todos'', ''refresh_tokens'', ''chat_messages''}"
    using n that by (rule user_children)
  show "(''friendId'', u) \<notin> set (row_refs r)" if "row_table r = ''friends''"
    using n that by (rule user_friends)
qed

theorem cascade_delete_witness:
  "prisma_delete foreign_keys ''workspaces'' ''w1'' demo_rows =
     Some [\<lparr>row_table = ''users'', row_id = ''u1'', row_refs = []\<rparr>,
           \<lparr>row_table = ''users'', row_id = ''u2'', row_refs = []\<rparr>,
           \<lparr>row_table = ''workspaces'', row_id = ''w2'', row_refs = [(''ownerId'', ''u2'')]\<rparr>,
           \<lparr>row_table = ''group_tasks'', row_id = ''t2'', row_refs = [(''workspaceId'', ''w2'')]\<rparr>,
           \<lparr>row_table = ''friends'', row_id = ''f1'', row_refs = [(''userId'', ''u2''), (''friendId'', ''u1'')]\<rparr>,
           \<lparr>row_table = ''personal_todos'', row_id = ''p1'', row_refs = [(''userId'', ''u2'')]\<rparr>,
           \<lparr>row_table = ''refresh_tokens'', row_id = ''r1'', row_refs = [(''userId'', ''u1'')]\<rparr>] \<and>
   prisma_delete foreign_keys ''users'' ''u1'' demo_rows =
     Some [\<lparr>row_table = ''users'', row_id = ''u2'', row_refs = []\<rparr>,
           \<lparr>row_table = ''workspaces'', row_id = ''w2'', row_refs = [(''ownerId'', ''u2'')]\<rparr>,
           \<lparr>row_table = ''group_tasks'', row_id = ''t2'', row_refs = [(''workspaceId'', ''w2'')]\<rparr>,
           \<lparr>row_table = ''personal_todos'', row_id = ''p1'', row_refs = [(''userId'', ''u2'')]\<rparr>]"
proof
  have e: "(''workspaces'', ''w1'') \<in> set (map (\<lambda>r. (row_table r, row_id r)) demo_rows)"
    by (simp add: demo_rows_def)
  then have d: "prisma_delete foreign_keys ''workspaces'' ''w1'' demo_rows
                  = Some (sql_delete foreign_keys [(''workspaces'', ''w1'')] demo_rows)"
    by (simp only: prisma_delete_def if_True)
  note cascade_delete[where w = "''w1''" and db = demo_rows
        and db' = "sql_delete foreign_keys [(''workspaces'', ''w1'')] demo_rows",
        THEN conjunct2, THEN conjunct1, THEN mp, OF d]
  then have "\<forall>r \<in> set (sql_delete foreign_keys [(''workspaces'', ''w1'')] demo_rows).
               \<not> (row_table r = ''workspaces'' \<and> row_id r = ''w1'')"
    by blast
  with d show "prisma_delete foreign_keys ''workspaces'' ''w1'' demo_rows =
     Some [\<lparr>row_table = ''users'', row_id = ''u1'', row_refs = []\<rparr>,
           \<lparr>row_table = ''users'', row_id = ''u2'', row_refs = []\<rparr>,
           \<lparr>row_table = ''workspaces'', row_id = ''w2'', row_refs = [(''ownerId'', ''u2'')]\<rparr>,
           \<lparr>row_table = ''group_tasks'', row_id = ''t2'', row_refs = [(''workspaceId'', ''w2'')]\<rparr>,
           \<lparr>row_table = ''friends'', row_id = ''f1'', row_refs = [(''userId'', ''u2''), (''friendId'', ''u1'')]\<rparr>,
           \<lparr>row_table = ''personal_todos'', row_id = ''p1'', row_refs = [(''userId'', ''u2'')]\<rparr>,
           \<lparr>row_table = ''refresh_tokens'', row_id = ''r1'', row_refs = [(''userId'', ''u1'')]\<rparr>]"
    by (simp only: demo_delete_workspace)
next
  have e: "(''users'', ''u1'') \<in> set (map (\<lambda>r. (row_table r, row_id r)) demo_rows)"
    by (simp add: demo_rows_def)
  then have d: "prisma_delete foreign_keys ''users'' ''u1'' demo_rows
                  = Some (sql_delete foreign_keys [(''users'', ''u1'')] demo_rows)"
    by (simp only: prisma_delete_def if_True)
  then show "prisma_delete foreign_keys ''users'' ''u1'' demo_rows =
     Some [\<lparr>row_table = ''users'', row_id = ''u2'', row_refs = []\<rparr>,
           \<lparr>row_table = ''workspaces'', row_id = ''w2'', row_refs = [(''ownerId'', ''u2'')]\<rparr>,
           \<lparr>row_table = ''group_tasks'', row_id = ''t2'', row_refs = [(''workspaceId'', ''w2'')]\<rparr>,
           \<lparr>row_table = ''personal_todos'', row_id = ''p1'', row_refs = [(''userId'', ''u2'')]\<rparr>]"
    by (simp only: demo_delete_user)
qed

end
